theory Spec2Isabelle
  imports Complex_Main "HOL-Library.Word"
begin

section \<open>The NAS actions of qmicli (src/cli/qmicli-nas.c)\<close>

text \<open>
  The file is one client of three collaborators: the GLib runtime (printing, reference
  counting, the main loop), the libqmi-glib library (requests, replies and their accessors)
  and the qmicli driver (which is told when the operation is done). The model records every
  call to a collaborator as an event, in program order, so that a property of the code is a
  property of the list of events it produces.

  Conventions of the embedding:
  \<^item> a format string is the source's literal; the escape for a new line is written
    \<open>\<newline>\<close>, the escape for a tabulator is the constant \<open>TAB\<close>, and a literal
    that ends with a single quote ends with the constant \<open>QUOTE\<close>; the arguments that
    follow the format in the call are the list of \<open>arg\<close>;
  \<^item> the strings that libqmi-glib computes from an enumeration or a mask, and the display
    path of a device, are not computed: the argument says which function is applied to
    which raw value;
  \<^item> raw integers have the width of the C variable that receives them; enumerations,
    whose declarations are in the library, are integers, and masks are natural numbers;
  \<^item> a gdouble argument is given as a real number: the products by -0.5 are exact in
    double arithmetic for the widths that occur, the other expressions stand for the
    double that approximates them (the sign of a zero is not represented);
  \<^item> a C object that is read without having been written (a local variable that an
    accessor left alone, a field of a new slice) has an indeterminate value; the model
    takes every such value as a parameter, so a theorem holds whatever is read;
  \<^item> a read through a pointer variable that was never written has no defined behaviour:
    it is the event \<open>Fault\<close>, and the function that does it does nothing after it;
  \<^item> a ready callback is called once, with the reply of its request, as the library
    promises.
\<close>

subsection \<open>Events\<close>

type_synonym gobject = nat

abbreviation (input) TAB :: string where
  "TAB \<equiv> [CHR 0x09]"

abbreviation (input) QUOTE :: string where
  "QUOTE \<equiv> [CHR 0x27]"

text \<open>The library's functions from a value to its string, without their prefix \<open>qmi_nas_\<close>.\<close>

datatype enum_kind =
    radio_interface_get_string | registration_state_get_string | attach_state_get_string
  | network_type_get_string | roaming_indicator_status_get_string
  | data_capability_get_string | service_status_get_string
  | network_service_domain_get_string | hdr_personality_get_string
  | call_barring_status_get_string | preference_duration_get_string
  | cdma_prl_preference_get_string | roaming_preference_get_string
  | network_selection_preference_get_string | service_domain_preference_get_string
  | gsm_wcdma_acquisition_order_preference_get_string

datatype mask_kind =
    radio_technology_preference_build_string_from_mask
  | rat_mode_preference_build_string_from_mask
  | band_preference_build_string_from_mask
  | lte_band_preference_build_string_from_mask
  | td_scdma_band_preference_build_string_from_mask
  | network_status_build_string_from_mask

datatype arg =
    AStr string                    \<comment> \<open>a C string\<close>
  | AInt int                       \<comment> \<open>a signed integer argument\<close>
  | AUInt nat                      \<comment> \<open>an unsigned integer argument\<close>
  | ADouble real                   \<comment> \<open>a gdouble argument\<close>
  | ADevicePath "gobject option"   \<comment> \<open>qmi_device_get_path_display (device)\<close>
  | AEnumString enum_kind int      \<comment> \<open>the string of an enumeration value\<close>
  | AConstString enum_kind string  \<comment> \<open>the string of a named constant of the library\<close>
  | AMaskString mask_kind nat      \<comment> \<open>the string built from a mask\<close>

datatype signal_strength_request =
    REQUEST_RSSI | REQUEST_ECIO | REQUEST_IO | REQUEST_SINR | REQUEST_RSRQ
  | REQUEST_LTE_SNR | REQUEST_LTE_RSRP

datatype request =
    GetSignalStrength | GetSignalInfo | GetServingSystem | GetTechnologyPreference
  | GetSystemSelectionPreference | NetworkScan | Reset

datatype input = Input (request_mask: "signal_strength_request set")

datatype event =
    Print string "arg list"        \<comment> \<open>g_print (format, args)\<close>
  | PrintErr string "arg list"     \<comment> \<open>g_printerr (format, args)\<close>
  | Warning string "arg list"      \<comment> \<open>g_warning (format, args)\<close>
  | Debug string                   \<comment> \<open>g_debug (text)\<close>
  | WarnIfReached                  \<comment> \<open>g_warn_if_reached ()\<close>
  | Probe string                   \<comment> \<open>a call of the accessor ..._output_get_<name>\<close>
  | ErrorFree                      \<comment> \<open>g_error_free\<close>
  | StringFree                     \<comment> \<open>g_free of a built string\<close>
  | OutputUnref                    \<comment> \<open>..._output_unref\<close>
  | InputNew                       \<comment> \<open>..._input_new\<close>
  | InputUnref "input option"      \<comment> \<open>..._input_unref (input); None is NULL\<close>
  | ObjectRef gobject              \<comment> \<open>g_object_ref\<close>
  | ObjectUnref gobject            \<comment> \<open>g_object_unref\<close>
  | SliceNew                       \<comment> \<open>g_slice_new (Context)\<close>
  | SliceFree                      \<comment> \<open>g_slice_free (Context, ctx)\<close>
  | Submit request "input option" nat "gobject option"
      \<comment> \<open>qmi_client_nas_<request> (client, input, timeout, cancellable, ready, NULL)\<close>
  | IdleAdd                        \<comment> \<open>g_idle_add (noop_cb, NULL)\<close>
  | OperationDone bool             \<comment> \<open>qmicli_async_operation_done (status)\<close>
  | Fault                          \<comment> \<open>a read through an uninitialised pointer\<close>

subsection \<open>Options and the action selector\<close>

record options =
  get_signal_strength_flag :: bool
  get_signal_info_flag :: bool
  get_serving_system_flag :: bool
  get_technology_preference_flag :: bool
  get_system_selection_preference_flag :: bool
  network_scan_flag :: bool
  reset_flag :: bool
  noop_flag :: bool

text \<open>The two static variables of \<open>qmicli_nas_options_enabled\<close>.\<close>

record selector =
  n_actions :: nat
  checked :: bool

datatype 'a outcome = Return 'a | Exit nat

definition EXIT_FAILURE :: nat where
  "EXIT_FAILURE = 1"

definition qmicli_nas_options_enabled ::
  "options \<Rightarrow> selector \<Rightarrow> bool outcome \<times> selector \<times> event list" where
  "qmicli_nas_options_enabled opts s =
     (if checked s then (Return (n_actions s \<noteq> 0), s, [])
      else
        let n = of_bool (get_signal_strength_flag opts) +
                of_bool (get_signal_info_flag opts) +
                of_bool (get_serving_system_flag opts) +
                of_bool (get_technology_preference_flag opts) +
                of_bool (get_system_selection_preference_flag opts) +
                of_bool (network_scan_flag opts) +
                of_bool (reset_flag opts) +
                of_bool (noop_flag opts);
            s1 = s\<lparr>n_actions := n\<rparr>
        in if 1 < n
           then (Exit EXIT_FAILURE, s1,
                 [PrintErr ''error: too many NAS actions requested\<newline>'' []])
           else (Return (n \<noteq> 0), s1\<lparr>checked := True\<rparr>, []))"

text \<open>The flags as a list, to count the ones that are set.\<close>

definition flag_list :: "options \<Rightarrow> bool list" where
  "flag_list opts =
     [get_signal_strength_flag opts, get_signal_info_flag opts,
      get_serving_system_flag opts, get_technology_preference_flag opts,
      get_system_selection_preference_flag opts, network_scan_flag opts,
      reset_flag opts, noop_flag opts]"

definition flags_set :: "options \<Rightarrow> nat" where
  "flags_set opts = length (filter (\<lambda>b. b) (flag_list opts))"

subsection \<open>The context and its release\<close>

record Context =
  device :: "gobject option"
  client :: "gobject option"
  cancellable :: "gobject option"

definition context_free :: "Context option \<Rightarrow> event list" where
  "context_free ctx =
     (case ctx of
        None \<Rightarrow> []
      | Some c \<Rightarrow>
          (case cancellable c of None \<Rightarrow> [] | Some g \<Rightarrow> [ObjectUnref g]) @
          (case device c of None \<Rightarrow> [] | Some g \<Rightarrow> [ObjectUnref g]) @
          (case client c of None \<Rightarrow> [] | Some g \<Rightarrow> [ObjectUnref g]) @
          [SliceFree])"

definition shutdown :: "Context option \<Rightarrow> bool \<Rightarrow> event list" where
  "shutdown ctx operation_status = context_free ctx @ [OperationDone operation_status]"

subsection \<open>Replies\<close>

text \<open>
  The overall result of an output, and what the finish function of a request gives: no
  output and an error, or an output.
\<close>

datatype result = Success | Failure string

record 'f qmi_output =
  get_result :: result
  groups :: 'f

datatype 'f reply = OperationFailed string | Output "'f qmi_output"

text \<open>
  The pattern \<^verbatim>\<open>if (..._output_get_<name> (output, &v, NULL)) { ... }\<close>: the accessor
  is called, and the block runs when the group is there.
\<close>

definition probe :: "string \<Rightarrow> 'a option \<Rightarrow> ('a \<Rightarrow> event list) \<Rightarrow> event list" where
  "probe name field block = Probe name # (case field of None \<Rightarrow> [] | Some v \<Rightarrow> block v)"

text \<open>
  The pattern \<^verbatim>\<open>..._output_get_<name> (output, &v, NULL);\<close> with the result dropped:
  the variables keep what they held when the group is not there.
\<close>

definition ignored :: "'a option \<Rightarrow> 'a \<Rightarrow> 'a" where
  "ignored field held = (case field of None \<Rightarrow> held | Some v \<Rightarrow> v)"

text \<open>The loop \<^verbatim>\<open>for (i = 0; i < array->len; i++)\<close> over the elements with their index.\<close>

definition for_each :: "'a list \<Rightarrow> (nat \<Rightarrow> 'a \<Rightarrow> event list) \<Rightarrow> event list" where
  "for_each array body = concat (map (\<lambda>(i, x). body i x) (enumerate 0 array))"

subsection \<open>SINR levels\<close>

text \<open>
  \<open>G_MAXDOUBLE\<close> is GLib's name for the largest finite double.

  Modelled from the spec: the enumeration QmiNasEvdoSinrLevel is declared in the library;
  by the spec its nine levels are the numbers 0 to 8.
\<close>

definition G_MAXDOUBLE :: real where
  "G_MAXDOUBLE = 2 ^ 1024 - 2 ^ 971"

definition get_db_from_sinr_level :: "nat \<Rightarrow> event list \<times> real" where
  "get_db_from_sinr_level level =
     (if level = 0 then ([], -9.0)
      else if level = 1 then ([], -6)
      else if level = 2 then ([], -4.5)
      else if level = 3 then ([], -3)
      else if level = 4 then ([], -2)
      else if level = 5 then ([], 1)
      else if level = 6 then ([], 3)
      else if level = 7 then ([], 6)
      else if level = 8 then ([], 9)
      else ([Warning (''Invalid SINR level '%u'' @ QUOTE) [AUInt level]], - G_MAXDOUBLE))"

subsection \<open>Signal info\<close>

type_synonym gint8 = "8 word"
type_synonym guint8 = "8 word"
type_synonym gint16 = "16 word"
type_synonym guint16 = "16 word"
type_synonym gint32 = "32 word"
type_synonym guint32 = "32 word"

record signal_info_groups =
  cdma_signal_strength :: "(gint8 \<times> guint16) option"
  hdr_signal_strength :: "(gint8 \<times> guint16 \<times> nat \<times> gint32) option"
  gsm_signal_strength :: "gint8 option"
  wcdma_signal_strength :: "(gint8 \<times> guint16) option"
  lte_signal_strength :: "(gint8 \<times> gint8 \<times> gint16 \<times> gint16) option"
  tdma_signal_strength :: "gint8 option"

definition get_signal_info_ready :: "Context \<Rightarrow> signal_info_groups reply \<Rightarrow> event list" where
  "get_signal_info_ready ctx res =
     (case res of
        OperationFailed message \<Rightarrow>
          PrintErr ''error: operation failed: %s\<newline>'' [AStr message] # ErrorFree #
          shutdown (Some ctx) False
      | Output output \<Rightarrow>
          (case get_result output of
             Failure message \<Rightarrow>
               PrintErr ''error: couldn't get signal info: %s\<newline>'' [AStr message] #
               ErrorFree # OutputUnref # shutdown (Some ctx) False
           | Success \<Rightarrow>
               Print ''[%s] Successfully got signal info\<newline>'' [ADevicePath (device ctx)] #
               probe ''cdma_signal_strength'' (cdma_signal_strength (groups output))
                 (\<lambda>(rssi, ecio).
                    [Print (''CDMA:\<newline>'' @
                            TAB @ ''RSSI: '%d dBm'\<newline>'' @
                            TAB @ ''ECIO: '%.1lf dBm'\<newline>'')
                       [AInt (sint rssi), ADouble ((-0.5) * real (unat ecio))]]) @
               probe ''hdr_signal_strength'' (hdr_signal_strength (groups output))
                 (\<lambda>(rssi, ecio, sinr_level, io).
                    fst (get_db_from_sinr_level sinr_level) @
                    [Print (''HDR:\<newline>'' @
                            TAB @ ''RSSI: '%d dBm'\<newline>'' @
                            TAB @ ''ECIO: '%.1lf dBm'\<newline>'' @
                            TAB @ ''SINR (%u): '%.1lf dB'\<newline>'' @
                            TAB @ ''IO: '%d dBm'\<newline>'')
                       [AInt (sint rssi), ADouble ((-0.5) * real (unat ecio)),
                        AUInt sinr_level, ADouble (snd (get_db_from_sinr_level sinr_level)),
                        AInt (sint io)]]) @
               probe ''gsm_signal_strength'' (gsm_signal_strength (groups output))
                 (\<lambda>rssi.
                    [Print (''GSM:\<newline>'' @
                            TAB @ ''RSSI: '%d dBm'\<newline>'')
                       [AInt (sint rssi)]]) @
               probe ''wcdma_signal_strength'' (wcdma_signal_strength (groups output))
                 (\<lambda>(rssi, ecio).
                    [Print (''WCDMA:\<newline>'' @
                            TAB @ ''RSSI: '%d dBm'\<newline>'' @
                            TAB @ ''ECIO: '%.1lf dBm'\<newline>'')
                       [AInt (sint rssi), ADouble ((-0.5) * real (unat ecio))]]) @
               probe ''lte_signal_strength'' (lte_signal_strength (groups output))
                 (\<lambda>(rssi, rsrq, rsrp, snr).
                    [Print (''LTE:\<newline>'' @
                            TAB @ ''RSSI: '%d dBm'\<newline>'' @
                            TAB @ ''RSRQ: '%d dB'\<newline>'' @
                            TAB @ ''RSRP: '%d dBm'\<newline>'' @
                            TAB @ ''SNR: '%.1lf dBm'\<newline>'')
                       [AInt (sint rssi), AInt (sint rsrq), AInt (sint rsrp),
                        ADouble (0.1 * real_of_int (sint snr))]]) @
               probe ''tdma_signal_strength'' (tdma_signal_strength (groups output))
                 (\<lambda>rscp.
                    [Print (''TDMA:\<newline>'' @
                            TAB @ ''RSCP: '%d dBm'\<newline>'')
                       [AInt (sint rscp)]]) @
               OutputUnref # shutdown (Some ctx) True))"

subsection \<open>Signal strength\<close>

text \<open>
  Whether \<open>..._input_set_request_mask\<close> fails is decided by the library: the model takes
  its error, if any, as a parameter. The function gives the input (None is NULL) and its
  events.
\<close>

definition get_signal_strength_input_create :: "string option \<Rightarrow> input option \<times> event list" where
  "get_signal_strength_input_create set_request_mask_error =
     (let mask = {REQUEST_RSSI, REQUEST_ECIO, REQUEST_IO, REQUEST_SINR, REQUEST_RSRQ,
                  REQUEST_LTE_SNR, REQUEST_LTE_RSRP}
      in case set_request_mask_error of
           None \<Rightarrow> (Some (Input mask), [InputNew])
         | Some message \<Rightarrow>
             (None,
              [InputNew,
               PrintErr ''error: couldn't create input data bundle: '%s'\<newline>'' [AStr message],
               ErrorFree,
               InputUnref (Some (Input {}))]))"

text \<open>
  Modelled from the spec: the element structures of the three lists are declared in the
  library; an element is the pair of its radio interface and its value, the value a signed
  byte for a strength and an unsigned byte for an RSSI or an energy ratio.
\<close>

record signal_strength_groups =
  signal_strength :: "(gint8 \<times> int) option"
  strength_list :: "(int \<times> gint8) list option"
  rssi_list :: "(int \<times> guint8) list option"
  ecio_list :: "(int \<times> guint8) list option"
  io :: "gint32 option"
  sinr :: "nat option"
  rsrq :: "(gint8 \<times> int) option"
  lte_snr :: "gint16 option"
  lte_rsrp :: "gint16 option"

text \<open>
  The result of the first accessor is dropped: \<open>held\<close> is what the variables
  \<open>strength\<close> and \<open>radio_interface\<close> hold before the call.
\<close>

definition get_signal_strength_ready ::
  "Context \<Rightarrow> gint8 \<times> int \<Rightarrow> signal_strength_groups reply \<Rightarrow> event list" where
  "get_signal_strength_ready ctx held res =
     (case res of
        OperationFailed message \<Rightarrow>
          PrintErr ''error: operation failed: %s\<newline>'' [AStr message] # ErrorFree #
          shutdown (Some ctx) False
      | Output output \<Rightarrow>
          (case get_result output of
             Failure message \<Rightarrow>
               PrintErr ''error: couldn't get signal strength: %s\<newline>'' [AStr message] #
               ErrorFree # OutputUnref # shutdown (Some ctx) False
           | Success \<Rightarrow>
               Probe ''signal_strength'' #
               (case ignored (signal_strength (groups output)) held of
                  (strength, radio_interface_value) \<Rightarrow>
                    [Print (''[%s] Successfully got signal strength\<newline>'' @
                            ''Current:\<newline>'' @
                            TAB @ ''Network '%s': '%d dBm'\<newline>'')
                       [ADevicePath (device ctx),
                        AEnumString radio_interface_get_string radio_interface_value,
                        AInt (sint strength)]]) @
               probe ''strength_list'' (strength_list (groups output))
                 (\<lambda>array.
                    Print ''Other:\<newline>'' [] #
                    for_each array
                      (\<lambda>i (element_radio_interface, element_strength).
                         [Print (TAB @ ''Network '%s': '%d dBm'\<newline>'')
                            [AEnumString radio_interface_get_string element_radio_interface,
                             AInt (sint element_strength)]])) @
               probe ''rssi_list'' (rssi_list (groups output))
                 (\<lambda>array.
                    Print ''RSSI:\<newline>'' [] #
                    for_each array
                      (\<lambda>i (element_radio_interface, element_rssi).
                         [Print (TAB @ ''Network '%s': '%d dBm'\<newline>'')
                            [AEnumString radio_interface_get_string element_radio_interface,
                             AInt ((-1) * int (unat element_rssi))]])) @
               probe ''ecio_list'' (ecio_list (groups output))
                 (\<lambda>array.
                    Print ''ECIO:\<newline>'' [] #
                    for_each array
                      (\<lambda>i (element_radio_interface, element_ecio).
                         [Print (TAB @ ''Network '%s': '%.1lf dBm'\<newline>'')
                            [AEnumString radio_interface_get_string element_radio_interface,
                             ADouble ((-0.5) * real (unat element_ecio))]])) @
               probe ''io'' (io (groups output))
                 (\<lambda>io_value.
                    [Print (''IO:\<newline>'' @
                            TAB @ ''Network '%s': '%d dBm'\<newline>'')
                       [AConstString radio_interface_get_string ''QMI_NAS_RADIO_INTERFACE_CDMA_1XEVDO'',
                        AInt (sint io_value)]]) @
               probe ''sinr'' (sinr (groups output))
                 (\<lambda>sinr_level.
                    fst (get_db_from_sinr_level sinr_level) @
                    [Print (''SINR:\<newline>'' @
                            TAB @ ''Network '%s': (%u) '%.1lf dB'\<newline>'')
                       [AConstString radio_interface_get_string ''QMI_NAS_RADIO_INTERFACE_CDMA_1XEVDO'',
                        AUInt sinr_level,
                        ADouble (snd (get_db_from_sinr_level sinr_level))]]) @
               probe ''rsrq'' (rsrq (groups output))
                 (\<lambda>(rsrq_value, radio_interface_value).
                    [Print (''RSRQ:\<newline>'' @
                            TAB @ ''Network '%s': '%d dB'\<newline>'')
                       [AEnumString radio_interface_get_string radio_interface_value,
                        AInt (sint rsrq_value)]]) @
               probe ''lte_snr'' (lte_snr (groups output))
                 (\<lambda>snr.
                    [Print (''SNR:\<newline>'' @
                            TAB @ ''Network '%s': '%.1lf dB'\<newline>'')
                       [AConstString radio_interface_get_string ''QMI_NAS_RADIO_INTERFACE_LTE'',
                        ADouble (0.1 * real_of_int (sint snr))]]) @
               probe ''lte_rsrp'' (lte_rsrp (groups output))
                 (\<lambda>rsrp.
                    [Print (''RSRP:\<newline>'' @
                            TAB @ ''Network '%s': '%d dBm'\<newline>'')
                       [AConstString radio_interface_get_string ''QMI_NAS_RADIO_INTERFACE_LTE'',
                        AInt (sint rsrp)]]) @
               OutputUnref # shutdown (Some ctx) True))"

subsection \<open>Serving system\<close>

text \<open>
  Modelled from the spec: the element structure of the roaming indicator list is declared
  in the library; an element is the pair of its roaming indicator and its radio interface.
\<close>

record serving_system_groups =
  serving_system :: "(int \<times> int \<times> int \<times> int \<times> int list) option"
  roaming_indicator :: "int option"
  data_service_capability :: "int list option"
  current_plmn :: "(guint16 \<times> guint16 \<times> string) option"
  cdma_system_id :: "(guint16 \<times> guint16) option"
  cdma_base_station_info :: "(guint16 \<times> gint32 \<times> gint32) option"
  roaming_indicator_list :: "(int \<times> int) list option"
  default_roaming_indicator :: "int option"
  time_zone_3gpp2 :: "(guint8 \<times> gint8 \<times> bool) option"
  cdma_p_rev :: "guint8 option"
  time_zone_3gpp :: "gint8 option"
  daylight_saving_time_adjustment_3gpp :: "guint8 option"
  lac_3gpp :: "guint16 option"
  cid_3gpp :: "guint32 option"
  concurrent_service_info_3gpp2 :: "bool option"
  prl_indicator_3gpp2 :: "bool option"
  dual_transfer_mode_supported :: "bool option"
  detailed_service_status :: "(int \<times> int \<times> int \<times> bool \<times> bool) option"
  cdma_system_info :: "(guint16 \<times> guint8) option"
  hdr_personality :: "int option"
  lte_tac :: "guint16 option"
  call_barring_status :: "(int \<times> int) option"
  umts_primary_scrambling_code :: "guint16 option"
  mnc_pcs_digit_include_status :: "(guint16 \<times> guint16 \<times> bool) option"

text \<open>
  The result of the first accessor is dropped. When the group is absent the accessor
  stores nothing, and the arguments of the next print are computed from variables that
  were never written: one of them is \<open>radio_interfaces->len\<close>, a read through the
  pointer \<open>radio_interfaces\<close>, which happens before anything is printed.
  \<open>G_GUINT16_FORMAT\<close> is GLib's \<open>hu\<close>. The degree sign of the two coordinate lines
  is its two bytes.
\<close>

definition get_serving_system_ready ::
  "Context \<Rightarrow> serving_system_groups reply \<Rightarrow> event list" where
  "get_serving_system_ready ctx res =
     (case res of
        OperationFailed message \<Rightarrow>
          PrintErr ''error: operation failed: %s\<newline>'' [AStr message] # ErrorFree #
          shutdown (Some ctx) False
      | Output output \<Rightarrow>
          (case get_result output of
             Failure message \<Rightarrow>
               PrintErr ''error: couldn't get serving system: %s\<newline>'' [AStr message] #
               ErrorFree # OutputUnref # shutdown (Some ctx) False
           | Success \<Rightarrow>
               Print ''[%s] Successfully got serving system:\<newline>'' [ADevicePath (device ctx)] #
               Probe ''serving_system'' #
               (case serving_system (groups output) of
                  None \<Rightarrow> [Fault]
                | Some (registration_state, cs_attach_state, ps_attach_state,
                        selected_network, radio_interfaces) \<Rightarrow>
                    Print (TAB @ ''Registration state: '%s'\<newline>'' @
                           TAB @ ''CS: '%s'\<newline>'' @
                           TAB @ ''PS: '%s'\<newline>'' @
                           TAB @ ''Selected network: '%s'\<newline>'' @
                           TAB @ ''Radio interfaces: '%u'' @ QUOTE)
                      [AEnumString registration_state_get_string registration_state,
                       AEnumString attach_state_get_string cs_attach_state,
                       AEnumString attach_state_get_string ps_attach_state,
                       AEnumString network_type_get_string selected_network,
                       AUInt (length radio_interfaces)] #
                    for_each radio_interfaces
                      (\<lambda>i iface.
                         [Print (TAB @ TAB @ ''[%u]: '%s'\<newline>'')
                            [AUInt i, AEnumString radio_interface_get_string iface]]) @
               probe ''roaming_indicator'' (roaming_indicator (groups output))
                 (\<lambda>roaming.
                    [Print (TAB @ ''Roaming status: '%s'\<newline>'')
                       [AEnumString roaming_indicator_status_get_string roaming]]) @
               probe ''data_service_capability'' (data_service_capability (groups output))
                 (\<lambda>array.
                    Print (TAB @ ''Data service capabilities: '%u'\<newline>'')
                      [AUInt (length array)] #
                    for_each array
                      (\<lambda>i cap.
                         [Print (TAB @ TAB @ ''[%u]: '%s'\<newline>'')
                            [AUInt i, AEnumString data_capability_get_string cap]])) @
               probe ''current_plmn'' (current_plmn (groups output))
                 (\<lambda>(current_plmn_mcc, current_plmn_mnc, current_plmn_description).
                    [Print (TAB @ ''Current PLMN:\<newline>'' @
                            TAB @ TAB @ ''MCC: '%hu'\<newline>'' @
                            TAB @ TAB @ ''MNC: '%hu'\<newline>'' @
                            TAB @ TAB @ ''Description: '%s'' @ QUOTE)
                       [AUInt (unat current_plmn_mcc), AUInt (unat current_plmn_mnc),
                        AStr current_plmn_description]]) @
               probe ''cdma_system_id'' (cdma_system_id (groups output))
                 (\<lambda>(sid, nid).
                    [Print (TAB @ ''CDMA System ID:\<newline>'' @
                            TAB @ TAB @ ''SID: '%hu'\<newline>'' @
                            TAB @ TAB @ ''ESN: '%hu'\<newline>'')
                       [AUInt (unat sid), AUInt (unat nid)]]) @
               probe ''cdma_base_station_info'' (cdma_base_station_info (groups output))
                 (\<lambda>(id, latitude, longitude).
                    (let latitude_degrees = (real_of_int (sint latitude) * 0.25) / 3600.0;
                         longitude_degrees = (real_of_int (sint longitude) * 0.25) / 3600.0
                     in [Print (TAB @ ''CDMA Base station info:\<newline>'' @
                                TAB @ TAB @ ''Base station ID: '%hu'\<newline>'' @
                                TAB @ TAB @ ''Latitude: '%lf'' @ QUOTE @ [CHR 0xC2, CHR 0xBA] @
                                ''\<newline>'' @
                                TAB @ TAB @ ''Longitude: '%lf'' @ QUOTE @ [CHR 0xC2, CHR 0xBA] @
                                ''\<newline>'')
                           [AUInt (unat id), ADouble latitude_degrees,
                            ADouble longitude_degrees]])) @
               probe ''roaming_indicator_list'' (roaming_indicator_list (groups output))
                 (\<lambda>roaming_indicators.
                    Print (TAB @ ''Roaming indicators: '%u'\<newline>'')
                      [AUInt (length roaming_indicators)] #
                    for_each roaming_indicators
                      (\<lambda>i (element_roaming_indicator, element_radio_interface).
                         [Print (TAB @ TAB @ ''[%u]: '%s' (%s)\<newline>'')
                            [AUInt i,
                             AEnumString roaming_indicator_status_get_string
                               element_roaming_indicator,
                             AEnumString radio_interface_get_string element_radio_interface]])) @
               probe ''default_roaming_indicator'' (default_roaming_indicator (groups output))
                 (\<lambda>roaming.
                    [Print (TAB @ ''Default roaming status: '%s'\<newline>'')
                       [AEnumString roaming_indicator_status_get_string roaming]]) @
               probe ''time_zone_3gpp2'' (time_zone_3gpp2 (groups output))
                 (\<lambda>(leap_seconds, local_time_offset, daylight_saving_time).
                    [Print (TAB @ ''3GPP2 time zone:\<newline>'' @
                            TAB @ TAB @ ''Leap seconds: '%u' seconds\<newline>'' @
                            TAB @ TAB @ ''Local time offset: '%d' minutes\<newline>'' @
                            TAB @ TAB @ ''Daylight saving time: '%s'\<newline>'')
                       [AUInt (unat leap_seconds),
                        AInt (sint ((scast local_time_offset :: 32 word) * 30)),
                        AStr (if daylight_saving_time then ''yes'' else ''no'')]]) @
               probe ''cdma_p_rev'' (cdma_p_rev (groups output))
                 (\<lambda>cdma_p_rev_value.
                    [Print (TAB @ ''CDMA P_Rev: '%u'\<newline>'')
                       [AUInt (unat cdma_p_rev_value)]]) @
               probe ''time_zone_3gpp'' (time_zone_3gpp (groups output))
                 (\<lambda>time_zone.
                    [Print (TAB @ ''3GPP time zone offset: '%d' minutes\<newline>'')
                       [AInt (sint ((scast time_zone :: 32 word) * 15))]]) @
               probe ''daylight_saving_time_adjustment_3gpp''
                 (daylight_saving_time_adjustment_3gpp (groups output))
                 (\<lambda>adjustment.
                    [Print (TAB @ ''3GPP daylight saving time adjustment: '%u' hours\<newline>'')
                       [AUInt (unat adjustment)]]) @
               probe ''lac_3gpp'' (lac_3gpp (groups output))
                 (\<lambda>lac.
                    [Print (TAB @ ''3GPP location area code: '%hu'\<newline>'')
                       [AUInt (unat lac)]]) @
               probe ''cid_3gpp'' (cid_3gpp (groups output))
                 (\<lambda>cid.
                    [Print (TAB @ ''3GPP cell ID: '%u'\<newline>'') [AUInt (unat cid)]]) @
               probe ''concurrent_service_info_3gpp2''
                 (concurrent_service_info_3gpp2 (groups output))
                 (\<lambda>concurrent.
                    [Print (TAB @ ''3GPP2 concurrent service info: '%s'\<newline>'')
                       [AStr (if concurrent then ''available'' else ''not available'')]]) @
               probe ''prl_indicator_3gpp2'' (prl_indicator_3gpp2 (groups output))
                 (\<lambda>prl.
                    [Print (TAB @ ''3GPP2 PRL indicator: '%s'\<newline>'')
                       [AStr (if prl then ''system in PRL'' else ''system not in PRL'')]]) @
               probe ''dual_transfer_mode_supported''
                 (dual_transfer_mode_supported (groups output))
                 (\<lambda>supported.
                    [Print (TAB @ ''Dual transfer mode: '%s'\<newline>'')
                       [AStr (if supported then ''supported'' else ''not supported'')]]) @
               probe ''detailed_service_status'' (detailed_service_status (groups output))
                 (\<lambda>(status, capability, hdr_status, hdr_hybrid, forbidden).
                    [Print (TAB @ ''Detailed status:\<newline>'' @
                            TAB @ TAB @ ''Status: '%s'\<newline>'' @
                            TAB @ TAB @ ''Capability: '%s'\<newline>'' @
                            TAB @ TAB @ ''HDR Status: '%s'\<newline>'' @
                            TAB @ TAB @ ''HDR Hybrid: '%s'\<newline>'' @
                            TAB @ TAB @ ''Forbidden: '%s'\<newline>'')
                       [AEnumString service_status_get_string status,
                        AEnumString network_service_domain_get_string capability,
                        AEnumString service_status_get_string hdr_status,
                        AStr (if hdr_hybrid then ''yes'' else ''no''),
                        AStr (if forbidden then ''yes'' else ''no'')]]) @
               probe ''cdma_system_info'' (cdma_system_info (groups output))
                 (\<lambda>(mcc, imsi_11_12).
                    [Print (TAB @ ''CDMA system info:\<newline>'' @
                            TAB @ TAB @ ''MCC: '%hu'\<newline>'' @
                            TAB @ TAB @ ''IMSI_11_12: '%u'\<newline>'')
                       [AUInt (unat mcc), AUInt (unat imsi_11_12)]]) @
               probe ''hdr_personality'' (hdr_personality (groups output))
                 (\<lambda>personality.
                    [Print (TAB @ ''HDR personality: '%s'\<newline>'')
                       [AEnumString hdr_personality_get_string personality]]) @
               probe ''lte_tac'' (lte_tac (groups output))
                 (\<lambda>tac.
                    [Print (TAB @ ''LTE tracking area code: '%hu'\<newline>'')
                       [AUInt (unat tac)]]) @
               probe ''call_barring_status'' (call_barring_status (groups output))
                 (\<lambda>(cs_status, ps_status).
                    [Print (TAB @ ''Call barring status:\<newline>'' @
                            TAB @ TAB @ ''Circuit switched: '%s'\<newline>'' @
                            TAB @ TAB @ ''Packet switched: '%s'\<newline>'')
                       [AEnumString call_barring_status_get_string cs_status,
                        AEnumString call_barring_status_get_string ps_status]]) @
               probe ''umts_primary_scrambling_code''
                 (umts_primary_scrambling_code (groups output))
                 (\<lambda>code.
                    [Print (TAB @ ''UMTS primary scrambling code: '%hu'\<newline>'')
                       [AUInt (unat code)]]) @
               probe ''mnc_pcs_digit_include_status''
                 (mnc_pcs_digit_include_status (groups output))
                 (\<lambda>(mcc, mnc, has_pcs_digit).
                    [Print (TAB @ ''Full operator code info:\<newline>'' @
                            TAB @ TAB @ ''MCC: '%hu'\<newline>'' @
                            TAB @ TAB @ ''MNC: '%hu'\<newline>'' @
                            TAB @ TAB @ ''MNC with PCS digit: '%s'\<newline>'')
                       [AUInt (unat mcc), AUInt (unat mnc),
                        AStr (if has_pcs_digit then ''yes'' else ''no'')]]) @
               OutputUnref # shutdown (Some ctx) True)))"

subsection \<open>Technology preference\<close>

record technology_preference_groups =
  active :: "(nat \<times> int) option"
  persistent :: "nat option"

text \<open>
  The result of the accessor of the active preference is dropped: \<open>held\<close> is what the
  variables \<open>preference\<close> and \<open>duration\<close> hold before the call.
\<close>

definition get_technology_preference_ready ::
  "Context \<Rightarrow> nat \<times> int \<Rightarrow> technology_preference_groups reply \<Rightarrow> event list" where
  "get_technology_preference_ready ctx held res =
     (case res of
        OperationFailed message \<Rightarrow>
          PrintErr ''error: operation failed: %s\<newline>'' [AStr message] # ErrorFree #
          shutdown (Some ctx) False
      | Output output \<Rightarrow>
          (case get_result output of
             Failure message \<Rightarrow>
               PrintErr ''error: couldn't get technology preference: %s\<newline>''
                 [AStr message] #
               ErrorFree # OutputUnref # shutdown (Some ctx) False
           | Success \<Rightarrow>
               Probe ''active'' #
               (case ignored (active (groups output)) held of
                  (preference, duration) \<Rightarrow>
                    [Print (''[%s] Successfully got technology preference\<newline>'' @
                            TAB @ ''Active: '%s', duration: '%s'\<newline>'')
                       [ADevicePath (device ctx),
                        AMaskString radio_technology_preference_build_string_from_mask
                          preference,
                        AEnumString preference_duration_get_string duration],
                     StringFree]) @
               probe ''persistent'' (persistent (groups output))
                 (\<lambda>preference.
                    [Print (TAB @ ''Persistent: '%s', duration: '%s'\<newline>'')
                       [ADevicePath (device ctx),
                        AMaskString radio_technology_preference_build_string_from_mask
                          preference],
                     StringFree]) @
               OutputUnref # shutdown (Some ctx) True))"

subsection \<open>System selection preference\<close>

record system_selection_preference_groups =
  emergency_mode :: "bool option"
  mode_preference :: "nat option"
  band_preference :: "nat option"
  lte_band_preference :: "nat option"
  td_scdma_band_preference :: "nat option"
  cdma_prl_preference :: "int option"
  roaming_preference :: "int option"
  network_selection_preference :: "int option"
  service_domain_preference :: "int option"
  gsm_wcdma_acquisition_order_preference :: "int option"
  manual_network_selection :: "(guint16 \<times> guint16 \<times> bool) option"

definition get_system_selection_preference_ready ::
  "Context \<Rightarrow> system_selection_preference_groups reply \<Rightarrow> event list" where
  "get_system_selection_preference_ready ctx res =
     (case res of
        OperationFailed message \<Rightarrow>
          PrintErr ''error: operation failed: %s\<newline>'' [AStr message] # ErrorFree #
          shutdown (Some ctx) False
      | Output output \<Rightarrow>
          (case get_result output of
             Failure message \<Rightarrow>
               PrintErr ''error: couldn't get system_selection preference: %s\<newline>''
                 [AStr message] #
               ErrorFree # OutputUnref # shutdown (Some ctx) False
           | Success \<Rightarrow>
               Print ''[%s] Successfully got system selection preference\<newline>''
                 [ADevicePath (device ctx)] #
               probe ''emergency_mode'' (emergency_mode (groups output))
                 (\<lambda>emergency.
                    [Print (TAB @ ''Emergency mode: '%s'\<newline>'')
                       [AStr (if emergency then ''yes'' else ''no'')]]) @
               probe ''mode_preference'' (mode_preference (groups output))
                 (\<lambda>mask.
                    [Print (TAB @ ''Mode preference: '%s'\<newline>'')
                       [AMaskString rat_mode_preference_build_string_from_mask mask],
                     StringFree]) @
               probe ''band_preference'' (band_preference (groups output))
                 (\<lambda>mask.
                    [Print (TAB @ ''Band preference: '%s'\<newline>'')
                       [AMaskString band_preference_build_string_from_mask mask],
                     StringFree]) @
               probe ''lte_band_preference'' (lte_band_preference (groups output))
                 (\<lambda>mask.
                    [Print (TAB @ ''LTE band preference: '%s'\<newline>'')
                       [AMaskString lte_band_preference_build_string_from_mask mask],
                     StringFree]) @
               probe ''td_scdma_band_preference'' (td_scdma_band_preference (groups output))
                 (\<lambda>mask.
                    [Print (TAB @ ''TD-SCDMA band preference: '%s'\<newline>'')
                       [AMaskString td_scdma_band_preference_build_string_from_mask mask],
                     StringFree]) @
               probe ''cdma_prl_preference'' (cdma_prl_preference (groups output))
                 (\<lambda>preference.
                    [Print (TAB @ ''CDMA PRL preference: '%s'\<newline>'')
                       [AEnumString cdma_prl_preference_get_string preference]]) @
               probe ''roaming_preference'' (roaming_preference (groups output))
                 (\<lambda>preference.
                    [Print (TAB @ ''Roaming preference: '%s'\<newline>'')
                       [AEnumString roaming_preference_get_string preference]]) @
               probe ''network_selection_preference''
                 (network_selection_preference (groups output))
                 (\<lambda>preference.
                    [Print (TAB @ ''Network selection preference: '%s'\<newline>'')
                       [AEnumString network_selection_preference_get_string preference]]) @
               probe ''service_domain_preference'' (service_domain_preference (groups output))
                 (\<lambda>preference.
                    [Print (TAB @ ''Service domain preference: '%s'\<newline>'')
                       [AEnumString service_domain_preference_get_string preference]]) @
               probe ''gsm_wcdma_acquisition_order_preference''
                 (gsm_wcdma_acquisition_order_preference (groups output))
                 (\<lambda>preference.
                    [Print (TAB @ ''Service selection preference: '%s'\<newline>'')
                       [AEnumString gsm_wcdma_acquisition_order_preference_get_string
                          preference]]) @
               probe ''manual_network_selection'' (manual_network_selection (groups output))
                 (\<lambda>(mcc, mnc, has_pcs_digit).
                    [Print (TAB @ ''Manual network selection:\<newline>'' @
                            TAB @ TAB @ ''MCC: '%hu'\<newline>'' @
                            TAB @ TAB @ ''MNC: '%hu'\<newline>'' @
                            TAB @ TAB @ ''MCC with PCS digit: '%s'\<newline>'')
                       [AUInt (unat mcc), AUInt (unat mnc),
                        AStr (if has_pcs_digit then ''yes'' else ''no'')]]) @
               OutputUnref # shutdown (Some ctx) True))"

subsection \<open>Network scan\<close>

text \<open>
  Modelled from the spec: the element structures of the three lists are declared in the
  library; an element is the tuple of its fields in the order in which the code prints
  them.
\<close>

record network_scan_groups =
  network_information :: "(guint16 \<times> guint16 \<times> nat \<times> string) list option"
  radio_access_technology :: "(guint16 \<times> guint16 \<times> int) list option"
  scan_mnc_pcs_digit_include_status :: "(guint16 \<times> guint16 \<times> bool) list option"

definition network_scan_ready :: "Context \<Rightarrow> network_scan_groups reply \<Rightarrow> event list" where
  "network_scan_ready ctx res =
     (case res of
        OperationFailed message \<Rightarrow>
          PrintErr ''error: operation failed: %s\<newline>'' [AStr message] # ErrorFree #
          shutdown (Some ctx) False
      | Output output \<Rightarrow>
          (case get_result output of
             Failure message \<Rightarrow>
               PrintErr ''error: couldn't scan networks: %s\<newline>'' [AStr message] #
               ErrorFree # OutputUnref # shutdown (Some ctx) False
           | Success \<Rightarrow>
               Print ''[%s] Successfully scanned networks\<newline>'' [ADevicePath (device ctx)] #
               probe ''network_information'' (network_information (groups output))
                 (\<lambda>array.
                    for_each array
                      (\<lambda>i (element_mcc, element_mnc, element_network_status,
                            element_description).
                         [Print (''Network [%u]:\<newline>'' @
                                 TAB @ ''MCC: '%hu'\<newline>'' @
                                 TAB @ ''MNC: '%hu'\<newline>'' @
                                 TAB @ ''Status: '%s'\<newline>'' @
                                 TAB @ ''Description: '%s'\<newline>'')
                            [AUInt i, AUInt (unat element_mcc), AUInt (unat element_mnc),
                             AMaskString network_status_build_string_from_mask
                               element_network_status,
                             AStr element_description],
                          StringFree])) @
               probe ''radio_access_technology'' (radio_access_technology (groups output))
                 (\<lambda>array.
                    for_each array
                      (\<lambda>i (element_mcc, element_mnc, element_radio_interface).
                         [Print (''Network [%u]:\<newline>'' @
                                 TAB @ ''MCC: '%hu'\<newline>'' @
                                 TAB @ ''MNC: '%hu'\<newline>'' @
                                 TAB @ ''RAT: '%s'\<newline>'')
                            [AUInt i, AUInt (unat element_mcc), AUInt (unat element_mnc),
                             AEnumString radio_interface_get_string
                               element_radio_interface]])) @
               probe ''mnc_pcs_digit_include_status''
                 (scan_mnc_pcs_digit_include_status (groups output))
                 (\<lambda>array.
                    for_each array
                      (\<lambda>i (element_mcc, element_mnc, element_includes_pcs_digit).
                         [Print (''Network [%u]:\<newline>'' @
                                 TAB @ ''MCC: '%hu'\<newline>'' @
                                 TAB @ ''MNC: '%hu'\<newline>'' @
                                 TAB @ ''MCC with PCS digit: '%s'\<newline>'')
                            [AUInt i, AUInt (unat element_mcc), AUInt (unat element_mnc),
                             AStr (if element_includes_pcs_digit then ''yes''
                                   else ''no'')]])) @
               OutputUnref # shutdown (Some ctx) True))"

subsection \<open>Reset and no operation\<close>

definition reset_ready :: "Context \<Rightarrow> unit reply \<Rightarrow> event list" where
  "reset_ready ctx res =
     (case res of
        OperationFailed message \<Rightarrow>
          PrintErr ''error: operation failed: %s\<newline>'' [AStr message] # ErrorFree #
          shutdown (Some ctx) False
      | Output output \<Rightarrow>
          (case get_result output of
             Failure message \<Rightarrow>
               PrintErr ''error: couldn't reset the NAS service: %s\<newline>'' [AStr message] #
               ErrorFree # OutputUnref # shutdown (Some ctx) False
           | Success \<Rightarrow>
               Print ''[%s] Successfully performed NAS service reset\<newline>''
                 [ADevicePath (device ctx)] #
               OutputUnref # shutdown (Some ctx) True))"

definition noop_cb :: "Context \<Rightarrow> event list" where
  "noop_cb ctx = shutdown (Some ctx) True"

subsection \<open>Running the selected action\<close>

text \<open>
  The callbacks that the code hands to the library or to the main loop.
\<close>

datatype callback =
    SignalStrengthReady | SignalInfoReady | ServingSystemReady | TechnologyPreferenceReady
  | SystemSelectionPreferenceReady | NetworkScanReady | ResetReady | NoopCb

text \<open>
  \<open>qmicli_nas_run\<close> sets the global \<open>ctx\<close>, and returns to the main loop after at most
  one request or idle source: the function gives the context, the callback that is then
  pending (if any) and its events. A new slice is not cleared: \<open>slice_cancellable\<close> is
  what its field \<open>cancellable\<close> holds, which the code leaves alone when it is given no
  cancellable.
\<close>

definition qmicli_nas_run ::
  "options \<Rightarrow> string option \<Rightarrow> gobject option \<Rightarrow> gobject \<Rightarrow> gobject \<Rightarrow> gobject option \<Rightarrow>
   Context \<times> callback option \<times> event list" where
  "qmicli_nas_run opts set_request_mask_error slice_cancellable device_arg client_arg
     cancellable_arg =
     (let ctx = \<lparr>device = Some device_arg, client = Some client_arg,
                 cancellable = (case cancellable_arg of
                                  None \<Rightarrow> slice_cancellable
                                | Some g \<Rightarrow> Some g)\<rparr>;
          init = SliceNew # ObjectRef device_arg # ObjectRef client_arg #
                 (case cancellable_arg of None \<Rightarrow> [] | Some g \<Rightarrow> [ObjectRef g])
      in if get_signal_strength_flag opts then
           (case get_signal_strength_input_create set_request_mask_error of
              (input, created) \<Rightarrow>
                (ctx, Some SignalStrengthReady,
                 init @ created @
                 [Debug ''Asynchronously getting signal strength...'',
                  Submit GetSignalStrength input 10 (cancellable ctx),
                  InputUnref input]))
         else if get_signal_info_flag opts then
           (ctx, Some SignalInfoReady,
            init @
            [Debug ''Asynchronously getting signal info...'',
             Submit GetSignalInfo None 10 (cancellable ctx)])
         else if get_serving_system_flag opts then
           (ctx, Some ServingSystemReady,
            init @
            [Debug ''Asynchronously getting serving system...'',
             Submit GetServingSystem None 10 (cancellable ctx)])
         else if get_technology_preference_flag opts then
           (ctx, Some TechnologyPreferenceReady,
            init @
            [Debug ''Asynchronously getting technology preference...'',
             Submit GetTechnologyPreference None 10 (cancellable ctx)])
         else if get_system_selection_preference_flag opts then
           (ctx, Some SystemSelectionPreferenceReady,
            init @
            [Debug ''Asynchronously getting system selection preference...'',
             Submit GetSystemSelectionPreference None 10 (cancellable ctx)])
         else if network_scan_flag opts then
           (ctx, Some NetworkScanReady,
            init @
            [Debug ''Asynchronously scanning networks...'',
             Submit NetworkScan None 300 (cancellable ctx)])
         else if reset_flag opts then
           (ctx, Some ResetReady,
            init @
            [Debug ''Asynchronously resetting NAS service...'',
             Submit Reset None 10 (cancellable ctx)])
         else if noop_flag opts then
           (ctx, Some NoopCb, init @ [IdleAdd])
         else
           (ctx, None, init @ [WarnIfReached]))"

subsection \<open>One invocation\<close>

text \<open>
  What the collaborators decide during one invocation: the error of the request mask, the
  content of the new slice, what the variables of the signal strength and of the
  technology preference hold before their first accessor, and the reply that the library
  hands to each ready callback.
\<close>

record collaborators =
  set_request_mask_error :: "string option"
  slice_cancellable :: "gobject option"
  held_signal_strength :: "gint8 \<times> int"
  held_technology_preference :: "nat \<times> int"
  signal_strength_res :: "signal_strength_groups reply"
  signal_info_res :: "signal_info_groups reply"
  serving_system_res :: "serving_system_groups reply"
  technology_preference_res :: "technology_preference_groups reply"
  system_selection_preference_res :: "system_selection_preference_groups reply"
  network_scan_res :: "network_scan_groups reply"
  reset_res :: "unit reply"

text \<open>The main loop calls the pending callback, once.\<close>

definition dispatch :: "Context \<Rightarrow> collaborators \<Rightarrow> callback \<Rightarrow> event list" where
  "dispatch ctx w cb =
     (case cb of
        SignalStrengthReady \<Rightarrow>
          get_signal_strength_ready ctx (held_signal_strength w) (signal_strength_res w)
      | SignalInfoReady \<Rightarrow> get_signal_info_ready ctx (signal_info_res w)
      | ServingSystemReady \<Rightarrow>
          get_serving_system_ready ctx (serving_system_res w)
      | TechnologyPreferenceReady \<Rightarrow>
          get_technology_preference_ready ctx (held_technology_preference w)
            (technology_preference_res w)
      | SystemSelectionPreferenceReady \<Rightarrow>
          get_system_selection_preference_ready ctx (system_selection_preference_res w)
      | NetworkScanReady \<Rightarrow> network_scan_ready ctx (network_scan_res w)
      | ResetReady \<Rightarrow> reset_ready ctx (reset_res w)
      | NoopCb \<Rightarrow> noop_cb ctx)"

definition invocation ::
  "options \<Rightarrow> collaborators \<Rightarrow> gobject \<Rightarrow> gobject \<Rightarrow> gobject option \<Rightarrow> event list" where
  "invocation opts w device_arg client_arg cancellable_arg =
     (case qmicli_nas_run opts (set_request_mask_error w) (slice_cancellable w)
             device_arg client_arg cancellable_arg of
        (ctx, pending, started) \<Rightarrow>
          started @ (case pending of None \<Rightarrow> [] | Some cb \<Rightarrow> dispatch ctx w cb))"

subsection \<open>Observations on a list of events\<close>

text \<open>The names of the accessors called, in order.\<close>

definition probes :: "event list \<Rightarrow> string list" where
  "probes t = [name. Probe name \<leftarrow> t]"

text \<open>The events from the first call of an accessor on.\<close>

definition from_probe :: "string \<Rightarrow> event list \<Rightarrow> event list" where
  "from_probe name t = dropWhile (\<lambda>e. e \<noteq> Probe name) t"

text \<open>
  The events of a teardown: the release of an object, the release of the context and the
  signal to the driver.
\<close>

fun teardown_event :: "event \<Rightarrow> bool" where
  "teardown_event (ObjectUnref g) = True"
| "teardown_event SliceFree = True"
| "teardown_event (OperationDone b) = True"
| "teardown_event _ = False"

definition teardown :: "event list \<Rightarrow> event list" where
  "teardown t = filter teardown_event t"

text \<open>A reply is a success when there is an output and its result is a success.\<close>

definition succeeded :: "'f reply \<Rightarrow> bool" where
  "succeeded res = (case res of OperationFailed message \<Rightarrow> False
                    | Output output \<Rightarrow> get_result output = Success)"

text \<open>The replies on which the serving system's callback reads through the pointer.\<close>

definition serving_system_faults :: "serving_system_groups reply \<Rightarrow> bool" where
  "serving_system_faults res =
     (case res of OperationFailed message \<Rightarrow> False
      | Output output \<Rightarrow>
          get_result output = Success \<and> serving_system (groups output) = None)"

text \<open>The status of the selected action: that of its reply; no operation succeeds.\<close>

definition status :: "options \<Rightarrow> collaborators \<Rightarrow> bool" where
  "status opts w =
     (if get_signal_strength_flag opts then succeeded (signal_strength_res w)
      else if get_signal_info_flag opts then succeeded (signal_info_res w)
      else if get_serving_system_flag opts then succeeded (serving_system_res w)
      else if get_technology_preference_flag opts then succeeded (technology_preference_res w)
      else if get_system_selection_preference_flag opts
        then succeeded (system_selection_preference_res w)
      else if network_scan_flag opts then succeeded (network_scan_res w)
      else if reset_flag opts then succeeded (reset_res w)
      else True)"

text \<open>The context that \<open>qmicli_nas_run\<close> makes.\<close>

definition context_of :: "collaborators \<Rightarrow> gobject \<Rightarrow> gobject \<Rightarrow> gobject option \<Rightarrow> Context" where
  "context_of w device_arg client_arg cancellable_arg =
     \<lparr>device = Some device_arg, client = Some client_arg,
      cancellable = (case cancellable_arg of None \<Rightarrow> slice_cancellable w | Some g \<Rightarrow> Some g)\<rparr>"

text \<open>No flag set.\<close>

definition no_action :: options where
  "no_action =
     \<lparr>get_signal_strength_flag = False, get_signal_info_flag = False,
      get_serving_system_flag = False, get_technology_preference_flag = False,
      get_system_selection_preference_flag = False, network_scan_flag = False,
      reset_flag = False, noop_flag = False\<rparr>"

text \<open>Groups of which none is present.\<close>

definition no_signal_strength_groups :: signal_strength_groups where
  "no_signal_strength_groups =
     \<lparr>signal_strength = None, strength_list = None, rssi_list = None, ecio_list = None,
      io = None, sinr = None, rsrq = None, lte_snr = None, lte_rsrp = None\<rparr>"

definition no_serving_system_groups :: serving_system_groups where
  "no_serving_system_groups =
     \<lparr>serving_system = None, roaming_indicator = None, data_service_capability = None,
      current_plmn = None, cdma_system_id = None, cdma_base_station_info = None,
      roaming_indicator_list = None, default_roaming_indicator = None,
      time_zone_3gpp2 = None, cdma_p_rev = None, time_zone_3gpp = None,
      daylight_saving_time_adjustment_3gpp = None, lac_3gpp = None, cid_3gpp = None,
      concurrent_service_info_3gpp2 = None, prl_indicator_3gpp2 = None,
      dual_transfer_mode_supported = None, detailed_service_status = None,
      cdma_system_info = None, hdr_personality = None, lte_tac = None,
      call_barring_status = None, umts_primary_scrambling_code = None,
      mnc_pcs_digit_include_status = None\<rparr>"

text \<open>An example of a context, for the closed statements.\<close>

definition example_context :: Context where
  "example_context = \<lparr>device = Some 1, client = Some 2, cancellable = Some 3\<rparr>"

section \<open>Properties\<close>

subsection \<open>Auxiliary facts\<close>

lemma sint_scast_byte:
  fixes x :: "8 word"
  shows "sint (scast x :: 32 word) = sint x" and "- 128 \<le> sint x" and "sint x < 128"
proof -
  show "sint (scast x :: 32 word) = sint x"
    by (rule sint_up_scast) (simp add: is_up)
  show "- 128 \<le> sint x" using sint_ge [of x] by simp
  show "sint x < 128" using sint_lt [of x] by simp
qed

lemma times_30_minutes: "sint ((scast (x :: 8 word) :: 32 word) * 30) = sint x * 30"
proof -
  have "sint ((scast x :: 32 word) * 30) = signed_take_bit 31 (sint x * 30)"
    by (simp add: sint_word_ariths sint_scast_byte(1))
  also have "\<dots> = sint x * 30"
    using sint_scast_byte(2,3) [of x] by (simp add: signed_take_bit_int_eq_self_iff)
  finally show ?thesis .
qed

lemma times_15_minutes: "sint ((scast (x :: 8 word) :: 32 word) * 15) = sint x * 15"
proof -
  have "sint ((scast x :: 32 word) * 15) = signed_take_bit 31 (sint x * 15)"
    by (simp add: sint_word_ariths sint_scast_byte(1))
  also have "\<dots> = sint x * 15"
    using sint_scast_byte(2,3) [of x] by (simp add: signed_take_bit_int_eq_self_iff)
  finally show ?thesis .
qed

lemma set_probe_Some:
  "set (probe name (Some v) block) = insert (Probe name) (set (block v))"
  by (simp add: probe_def)

lemma probes_Nil [simp]: "probes [] = []"
  by (simp add: probes_def)

lemma probes_Cons [simp]:
  "probes (e # t) = (case e of Probe name \<Rightarrow> name # probes t | _ \<Rightarrow> probes t)"
  by (simp add: probes_def split: event.splits)

lemma probes_append [simp]: "probes (t @ u) = probes t @ probes u"
  by (simp add: probes_def)

lemma probes_for_each:
  "(\<And>i x. probes (body i x) = []) \<Longrightarrow> probes (for_each array body) = []"
  by (simp add: probes_def for_each_def split_def)

lemma probes_probe:
  "(\<And>v. probes (block v) = []) \<Longrightarrow> probes (probe name field block) = [name]"
  by (simp add: probe_def split: option.splits)

lemma probes_context_free [simp]: "probes (context_free c) = []"
  by (simp add: context_free_def split: option.splits)

lemma probes_shutdown [simp]: "probes (shutdown c b) = []"
  by (simp add: shutdown_def)

lemma probes_sinr [simp]: "probes (fst (get_db_from_sinr_level level)) = []"
  by (simp add: get_db_from_sinr_level_def)

subsection \<open>The action selector\<close>

text \<open>
  C4. At the first call (nothing checked yet): with more than one flag set the check
  prints the error and exits with a failure status, having created no context and
  submitted no request (its only event is the message); with no flag set it returns
  false; with exactly one it returns true. Once a call has returned, every later call
  returns the same answer and changes nothing, whatever the flags are then.
\<close>

theorem action_selector_check:
  "\<not> checked s \<Longrightarrow>
     (1 < flags_set opts \<longrightarrow>
        qmicli_nas_options_enabled opts s =
          (Exit EXIT_FAILURE, s\<lparr>n_actions := flags_set opts\<rparr>,
           [PrintErr ''error: too many NAS actions requested\<newline>'' []])) \<and>
     (flags_set opts = 0 \<longrightarrow>
        qmicli_nas_options_enabled opts s =
          (Return False, s\<lparr>n_actions := 0, checked := True\<rparr>, [])) \<and>
     (flags_set opts = 1 \<longrightarrow>
        qmicli_nas_options_enabled opts s =
          (Return True, s\<lparr>n_actions := 1, checked := True\<rparr>, [])) \<and>
     (\<forall>b s' es opts'.
        qmicli_nas_options_enabled opts s = (Return b, s', es) \<longrightarrow>
        qmicli_nas_options_enabled opts' s' = (Return b, s', []))"
  by (auto simp add: qmicli_nas_options_enabled_def flags_set_def flag_list_def Let_def
      split: if_splits)

theorem action_selector_check_witness:
  "qmicli_nas_options_enabled (no_action\<lparr>reset_flag := True, noop_flag := True\<rparr>)
     \<lparr>n_actions = 0, checked = False\<rparr> =
     (Exit EXIT_FAILURE, \<lparr>n_actions = 2, checked = False\<rparr>,
      [PrintErr ''error: too many NAS actions requested\<newline>'' []]) \<and>
   qmicli_nas_options_enabled no_action \<lparr>n_actions = 0, checked = False\<rparr> =
     (Return False, \<lparr>n_actions = 0, checked = True\<rparr>, []) \<and>
   qmicli_nas_options_enabled (no_action\<lparr>network_scan_flag := True\<rparr>)
     \<lparr>n_actions = 0, checked = False\<rparr> =
     (Return True, \<lparr>n_actions = 1, checked = True\<rparr>, []) \<and>
   qmicli_nas_options_enabled (no_action\<lparr>reset_flag := True, noop_flag := True\<rparr>)
     \<lparr>n_actions = 1, checked = True\<rparr> =
     (Return True, \<lparr>n_actions = 1, checked = True\<rparr>, [])"
proof -
  let ?s = "\<lparr>n_actions = 0, checked = False\<rparr>"
  let ?two = "no_action\<lparr>reset_flag := True, noop_flag := True\<rparr>"
  let ?one = "no_action\<lparr>network_scan_flag := True\<rparr>"
  have fresh: "\<not> checked ?s" by simp
  have two: "1 < flags_set ?two" "flags_set ?two = 2"
    and none: "flags_set no_action = 0"
    and one: "flags_set ?one = 1"
    by (simp_all add: flags_set_def flag_list_def no_action_def)
  note many = action_selector_check [OF fresh, of ?two, THEN conjunct1, rule_format, OF two(1)]
  note zero = action_selector_check [OF fresh, of no_action, THEN conjunct2, THEN conjunct1,
      rule_format, OF none]
  note single = action_selector_check [OF fresh, of ?one, THEN conjunct2, THEN conjunct2,
      THEN conjunct1, rule_format, OF one]
  note again = action_selector_check [OF fresh, of ?one, THEN conjunct2, THEN conjunct2,
      THEN conjunct2, rule_format, OF single, of ?two]
  have a: "qmicli_nas_options_enabled ?two ?s =
     (Exit EXIT_FAILURE, \<lparr>n_actions = 2, checked = False\<rparr>,
      [PrintErr ''error: too many NAS actions requested\<newline>'' []])"
    using many by (simp add: two(2))
  have b: "qmicli_nas_options_enabled no_action ?s =
     (Return False, \<lparr>n_actions = 0, checked = True\<rparr>, [])"
    using zero by simp
  have c: "qmicli_nas_options_enabled ?one ?s =
     (Return True, \<lparr>n_actions = 1, checked = True\<rparr>, [])"
    using single by simp
  have d: "qmicli_nas_options_enabled ?two \<lparr>n_actions = 1, checked = True\<rparr> =
     (Return True, \<lparr>n_actions = 1, checked = True\<rparr>, [])"
    using again by simp
  from a b c d show ?thesis by (intro conjI)
qed

lemma in_for_each:
  assumes "x \<in> set array" and "\<And>i. e \<in> set (body i x)"
  shows "e \<in> set (for_each array body)"
proof -
  from assms(1) obtain i where i: "i < length array" "array ! i = x"
    by (auto simp add: in_set_conv_nth)
  then have "(i, x) \<in> set (enumerate 0 array)"
    by (simp add: in_set_enumerate_eq)
  with assms(2) [of i] show ?thesis
    by (force simp add: for_each_def)
qed

lemma in_probe:
  "e \<in> set (probe name field block) \<longleftrightarrow>
     e = Probe name \<or> (\<exists>v. field = Some v \<and> e \<in> set (block v))"
  by (cases field) (auto simp add: probe_def)

lemma print_not_in_shutdown [simp]: "Print format args \<notin> set (shutdown c b)"
  by (simp add: shutdown_def context_free_def split: option.splits)

lemma in_for_each_iff:
  "e \<in> set (for_each array body) \<longleftrightarrow>
     (\<exists>i x. (i, x) \<in> set (enumerate 0 array) \<and> e \<in> set (body i x))"
  by (auto simp add: for_each_def)

subsection \<open>Unit conversions\<close>

text \<open>
  C9. In the report of the serving system the local time offset of the 3GPP2 time zone is
  printed as the signed byte times 30, and the 3GPP time zone as the signed byte times 15
  (the 32-bit product does not wrap): the bytes 2 and -4 give 60 and -60 minutes. The two
  lines are printed whenever their group is present and the callback gets past the first
  group of the reply, and on any successful reply a print of either line has these
  arguments.
\<close>

theorem time_zone_offsets_in_minutes:
  "Print (TAB @ ''3GPP2 time zone:\<newline>'' @
          TAB @ TAB @ ''Leap seconds: '%u' seconds\<newline>'' @
          TAB @ TAB @ ''Local time offset: '%d' minutes\<newline>'' @
          TAB @ TAB @ ''Daylight saving time: '%s'\<newline>'')
     [AUInt (unat leap_seconds), AInt (sint local_time_offset * 30),
      AStr (if daylight_saving_time then ''yes'' else ''no'')]
   \<in> set (get_serving_system_ready ctx
            (Output \<lparr>get_result = Success,
                     groups = g\<lparr>serving_system := Some first,
                                time_zone_3gpp2 :=
                       Some (leap_seconds, local_time_offset, daylight_saving_time)\<rparr>\<rparr>)) \<and>
   Print (TAB @ ''3GPP time zone offset: '%d' minutes\<newline>'') [AInt (sint time_zone * 15)]
   \<in> set (get_serving_system_ready ctx
            (Output \<lparr>get_result = Success,
                     groups = g\<lparr>serving_system := Some first,
                                time_zone_3gpp := Some time_zone\<rparr>\<rparr>)) \<and>
   Print (TAB @ ''3GPP2 time zone:\<newline>'' @
          TAB @ TAB @ ''Leap seconds: '%u' seconds\<newline>'' @
          TAB @ TAB @ ''Local time offset: '%d' minutes\<newline>'' @
          TAB @ TAB @ ''Daylight saving time: '%s'\<newline>'')
     [AUInt 0, AInt 60, AStr ''no'']
   \<in> set (get_serving_system_ready ctx
            (Output \<lparr>get_result = Success,
                     groups = g\<lparr>serving_system := Some first,
                                time_zone_3gpp2 := Some (0, 2, False)\<rparr>\<rparr>)) \<and>
   Print (TAB @ ''3GPP time zone offset: '%d' minutes\<newline>'') [AInt (- 60)]
   \<in> set (get_serving_system_ready ctx
            (Output \<lparr>get_result = Success,
                     groups = g\<lparr>serving_system := Some first,
                                time_zone_3gpp := Some (- 4)\<rparr>\<rparr>)) \<and>
   (\<forall>args.
      Print (TAB @ ''3GPP2 time zone:\<newline>'' @
             TAB @ TAB @ ''Leap seconds: '%u' seconds\<newline>'' @
             TAB @ TAB @ ''Local time offset: '%d' minutes\<newline>'' @
             TAB @ TAB @ ''Daylight saving time: '%s'\<newline>'') args
      \<in> set (get_serving_system_ready ctx
               (Output \<lparr>get_result = Success,
                        groups = g\<lparr>time_zone_3gpp2 :=
                          Some (leap_seconds, local_time_offset, daylight_saving_time)\<rparr>\<rparr>)) \<longrightarrow>
      args = [AUInt (unat leap_seconds), AInt (sint local_time_offset * 30),
              AStr (if daylight_saving_time then ''yes'' else ''no'')]) \<and>
   (\<forall>args.
      Print (TAB @ ''3GPP time zone offset: '%d' minutes\<newline>'') args
      \<in> set (get_serving_system_ready ctx
               (Output \<lparr>get_result = Success,
                        groups = g\<lparr>time_zone_3gpp := Some time_zone\<rparr>\<rparr>)) \<longrightarrow>
      args = [AInt (sint time_zone * 15)])"
proof (intro conjI allI impI)
  show "Print (TAB @ ''3GPP2 time zone:\<newline>'' @
          TAB @ TAB @ ''Leap seconds: '%u' seconds\<newline>'' @
          TAB @ TAB @ ''Local time offset: '%d' minutes\<newline>'' @
          TAB @ TAB @ ''Daylight saving time: '%s'\<newline>'')
     [AUInt (unat leap_seconds), AInt (sint local_time_offset * 30),
      AStr (if daylight_saving_time then ''yes'' else ''no'')]
   \<in> set (get_serving_system_ready ctx
            (Output \<lparr>get_result = Success,
                     groups = g\<lparr>serving_system := Some first,
                                time_zone_3gpp2 :=
                       Some (leap_seconds, local_time_offset, daylight_saving_time)\<rparr>\<rparr>))"
    by (cases first) (simp add: get_serving_system_ready_def set_probe_Some times_30_minutes)
  show "Print (TAB @ ''3GPP time zone offset: '%d' minutes\<newline>'') [AInt (sint time_zone * 15)]
   \<in> set (get_serving_system_ready ctx
            (Output \<lparr>get_result = Success,
                     groups = g\<lparr>serving_system := Some first,
                                time_zone_3gpp := Some time_zone\<rparr>\<rparr>))"
    by (cases first) (simp add: get_serving_system_ready_def set_probe_Some times_15_minutes)
  show "Print (TAB @ ''3GPP2 time zone:\<newline>'' @
          TAB @ TAB @ ''Leap seconds: '%u' seconds\<newline>'' @
          TAB @ TAB @ ''Local time offset: '%d' minutes\<newline>'' @
          TAB @ TAB @ ''Daylight saving time: '%s'\<newline>'')
     [AUInt 0, AInt 60, AStr ''no'']
   \<in> set (get_serving_system_ready ctx
            (Output \<lparr>get_result = Success,
                     groups = g\<lparr>serving_system := Some first,
                                time_zone_3gpp2 := Some (0, 2, False)\<rparr>\<rparr>))"
    by (cases first) (simp add: get_serving_system_ready_def set_probe_Some times_30_minutes)
  show "Print (TAB @ ''3GPP time zone offset: '%d' minutes\<newline>'') [AInt (- 60)]
   \<in> set (get_serving_system_ready ctx
            (Output \<lparr>get_result = Success,
                     groups = g\<lparr>serving_system := Some first,
                                time_zone_3gpp := Some (- 4)\<rparr>\<rparr>))"
    by (cases first) (simp add: get_serving_system_ready_def set_probe_Some times_15_minutes)
next
  fix args
  assume "Print (TAB @ ''3GPP2 time zone:\<newline>'' @
             TAB @ TAB @ ''Leap seconds: '%u' seconds\<newline>'' @
             TAB @ TAB @ ''Local time offset: '%d' minutes\<newline>'' @
             TAB @ TAB @ ''Daylight saving time: '%s'\<newline>'') args
      \<in> set (get_serving_system_ready ctx
               (Output \<lparr>get_result = Success,
                        groups = g\<lparr>time_zone_3gpp2 :=
                          Some (leap_seconds, local_time_offset, daylight_saving_time)\<rparr>\<rparr>))"
  then show "args = [AUInt (unat leap_seconds), AInt (sint local_time_offset * 30),
              AStr (if daylight_saving_time then ''yes'' else ''no'')]"
    by (cases "serving_system g")
       (auto simp add: get_serving_system_ready_def in_probe in_for_each_iff
        times_30_minutes Let_def split_def)
next
  fix args
  assume "Print (TAB @ ''3GPP time zone offset: '%d' minutes\<newline>'') args
      \<in> set (get_serving_system_ready ctx
               (Output \<lparr>get_result = Success,
                        groups = g\<lparr>time_zone_3gpp := Some time_zone\<rparr>\<rparr>))"
  then show "args = [AInt (sint time_zone * 15)]"
    by (cases "serving_system g")
       (auto simp add: get_serving_system_ready_def in_probe in_for_each_iff
        times_15_minutes Let_def split_def)
qed

theorem time_zone_offsets_in_minutes_witness:
  "Print (TAB @ ''3GPP2 time zone:\<newline>'' @
          TAB @ TAB @ ''Leap seconds: '%u' seconds\<newline>'' @
          TAB @ TAB @ ''Local time offset: '%d' minutes\<newline>'' @
          TAB @ TAB @ ''Daylight saving time: '%s'\<newline>'')
     [AUInt 0, AInt 60, AStr ''no'']
   \<in> set (get_serving_system_ready example_context
            (Output \<lparr>get_result = Success,
                     groups = no_serving_system_groups
                       \<lparr>serving_system := Some (2, 2, 2, 2, [8]),
                        time_zone_3gpp2 := Some (0, 2, False)\<rparr>\<rparr>)) \<and>
   [AUInt 0, AInt 60, AStr ''no''] =
     [AUInt (unat (0 :: guint8)), AInt (sint (2 :: gint8) * 30),
      AStr (if False then ''yes'' else ''no'')]"
proof -
  note all = time_zone_offsets_in_minutes [where ctx = example_context
      and g = "no_serving_system_groups\<lparr>serving_system := Some (2, 2, 2, 2, [8])\<rparr>"
      and first = "(2, 2, 2, 2, [8])" and leap_seconds = 0 and local_time_offset = 2
      and daylight_saving_time = False]
  have present: "Print (TAB @ ''3GPP2 time zone:\<newline>'' @
          TAB @ TAB @ ''Leap seconds: '%u' seconds\<newline>'' @
          TAB @ TAB @ ''Local time offset: '%d' minutes\<newline>'' @
          TAB @ TAB @ ''Daylight saving time: '%s'\<newline>'')
     [AUInt 0, AInt 60, AStr ''no'']
   \<in> set (get_serving_system_ready example_context
            (Output \<lparr>get_result = Success,
                     groups = no_serving_system_groups
                       \<lparr>serving_system := Some (2, 2, 2, 2, [8]),
                        time_zone_3gpp2 := Some (0, 2, False)\<rparr>\<rparr>))"
    using all [THEN conjunct2, THEN conjunct2, THEN conjunct1] by simp
  note only = all [THEN conjunct2, THEN conjunct2, THEN conjunct2, THEN conjunct2,
      THEN conjunct1, rule_format, of "[AUInt 0, AInt 60, AStr ''no'']"]
  from present have "[AUInt 0, AInt 60, AStr ''no''] =
     [AUInt (unat (0 :: guint8)), AInt (sint (2 :: gint8) * 30),
      AStr (if False then ''yes'' else ''no'')]"
    by (intro only) simp
  with present show ?thesis by (intro conjI)
qed

text \<open>
  C8. Wherever an energy ratio is printed (the CDMA, HDR and WCDMA groups of the signal
  info, every element of the ECIO list of the signal strength), the argument is the raw
  unsigned value times -0.5: the raw value 10 is printed as -5 and the raw value 0 as 0.
\<close>

theorem energy_ratio_in_db:
  "Print (''CDMA:\<newline>'' @
          TAB @ ''RSSI: '%d dBm'\<newline>'' @
          TAB @ ''ECIO: '%.1lf dBm'\<newline>'')
     [AInt (sint rssi), ADouble (real (unat ecio) * (- 0.5))]
   \<in> set (get_signal_info_ready ctx
            (Output \<lparr>get_result = Success,
                     groups = g\<lparr>cdma_signal_strength := Some (rssi, ecio)\<rparr>\<rparr>)) \<and>
   Print (''HDR:\<newline>'' @
          TAB @ ''RSSI: '%d dBm'\<newline>'' @
          TAB @ ''ECIO: '%.1lf dBm'\<newline>'' @
          TAB @ ''SINR (%u): '%.1lf dB'\<newline>'' @
          TAB @ ''IO: '%d dBm'\<newline>'')
     [AInt (sint rssi), ADouble (real (unat ecio) * (- 0.5)), AUInt sinr_level,
      ADouble (snd (get_db_from_sinr_level sinr_level)), AInt (sint io_value)]
   \<in> set (get_signal_info_ready ctx
            (Output \<lparr>get_result = Success,
                     groups = g\<lparr>hdr_signal_strength :=
                       Some (rssi, ecio, sinr_level, io_value)\<rparr>\<rparr>)) \<and>
   Print (''WCDMA:\<newline>'' @
          TAB @ ''RSSI: '%d dBm'\<newline>'' @
          TAB @ ''ECIO: '%.1lf dBm'\<newline>'')
     [AInt (sint rssi), ADouble (real (unat ecio) * (- 0.5))]
   \<in> set (get_signal_info_ready ctx
            (Output \<lparr>get_result = Success,
                     groups = g\<lparr>wcdma_signal_strength := Some (rssi, ecio)\<rparr>\<rparr>)) \<and>
   (\<forall>(element_radio_interface, element_ecio) \<in> set array.
      Print (TAB @ ''Network '%s': '%.1lf dBm'\<newline>'')
        [AEnumString radio_interface_get_string element_radio_interface,
         ADouble (real (unat element_ecio) * (- 0.5))]
      \<in> set (get_signal_strength_ready ctx held
               (Output \<lparr>get_result = Success, groups = h\<lparr>ecio_list := Some array\<rparr>\<rparr>))) \<and>
   Print (''CDMA:\<newline>'' @
          TAB @ ''RSSI: '%d dBm'\<newline>'' @
          TAB @ ''ECIO: '%.1lf dBm'\<newline>'')
     [AInt (sint rssi), ADouble (- 5)]
   \<in> set (get_signal_info_ready ctx
            (Output \<lparr>get_result = Success,
                     groups = g\<lparr>cdma_signal_strength := Some (rssi, 10)\<rparr>\<rparr>)) \<and>
   Print (''CDMA:\<newline>'' @
          TAB @ ''RSSI: '%d dBm'\<newline>'' @
          TAB @ ''ECIO: '%.1lf dBm'\<newline>'')
     [AInt (sint rssi), ADouble 0]
   \<in> set (get_signal_info_ready ctx
            (Output \<lparr>get_result = Success,
                     groups = g\<lparr>cdma_signal_strength := Some (rssi, 0)\<rparr>\<rparr>))"
proof (intro conjI ballI)
  show "Print (''CDMA:\<newline>'' @
          TAB @ ''RSSI: '%d dBm'\<newline>'' @
          TAB @ ''ECIO: '%.1lf dBm'\<newline>'')
     [AInt (sint rssi), ADouble (real (unat ecio) * (- 0.5))]
   \<in> set (get_signal_info_ready ctx
            (Output \<lparr>get_result = Success,
                     groups = g\<lparr>cdma_signal_strength := Some (rssi, ecio)\<rparr>\<rparr>))"
    for ecio
    by (simp add: get_signal_info_ready_def set_probe_Some)
  from this [of 10] show "Print (''CDMA:\<newline>'' @
          TAB @ ''RSSI: '%d dBm'\<newline>'' @
          TAB @ ''ECIO: '%.1lf dBm'\<newline>'')
     [AInt (sint rssi), ADouble (- 5)]
   \<in> set (get_signal_info_ready ctx
            (Output \<lparr>get_result = Success,
                     groups = g\<lparr>cdma_signal_strength := Some (rssi, 10)\<rparr>\<rparr>))"
    by simp
  from \<open>\<And>ecio. _ \<in> set (get_signal_info_ready ctx (Output \<lparr>get_result = Success,
          groups = g\<lparr>cdma_signal_strength := Some (rssi, ecio)\<rparr>\<rparr>))\<close> [of 0]
  show "Print (''CDMA:\<newline>'' @
          TAB @ ''RSSI: '%d dBm'\<newline>'' @
          TAB @ ''ECIO: '%.1lf dBm'\<newline>'')
     [AInt (sint rssi), ADouble 0]
   \<in> set (get_signal_info_ready ctx
            (Output \<lparr>get_result = Success,
                     groups = g\<lparr>cdma_signal_strength := Some (rssi, 0)\<rparr>\<rparr>))"
    by simp
  show "Print (''HDR:\<newline>'' @
          TAB @ ''RSSI: '%d dBm'\<newline>'' @
          TAB @ ''ECIO: '%.1lf dBm'\<newline>'' @
          TAB @ ''SINR (%u): '%.1lf dB'\<newline>'' @
          TAB @ ''IO: '%d dBm'\<newline>'')
     [AInt (sint rssi), ADouble (real (unat ecio) * (- 0.5)), AUInt sinr_level,
      ADouble (snd (get_db_from_sinr_level sinr_level)), AInt (sint io_value)]
   \<in> set (get_signal_info_ready ctx
            (Output \<lparr>get_result = Success,
                     groups = g\<lparr>hdr_signal_strength :=
                       Some (rssi, ecio, sinr_level, io_value)\<rparr>\<rparr>))"
    by (simp add: get_signal_info_ready_def set_probe_Some)
  show "Print (''WCDMA:\<newline>'' @
          TAB @ ''RSSI: '%d dBm'\<newline>'' @
          TAB @ ''ECIO: '%.1lf dBm'\<newline>'')
     [AInt (sint rssi), ADouble (real (unat ecio) * (- 0.5))]
   \<in> set (get_signal_info_ready ctx
            (Output \<lparr>get_result = Success,
                     groups = g\<lparr>wcdma_signal_strength := Some (rssi, ecio)\<rparr>\<rparr>))"
    by (simp add: get_signal_info_ready_def set_probe_Some)
  fix x
  assume x: "x \<in> set array"
  obtain element_radio_interface element_ecio where
    xe: "x = (element_radio_interface, element_ecio)"
    by (cases x)
  have "Print (TAB @ ''Network '%s': '%.1lf dBm'\<newline>'')
          [AEnumString radio_interface_get_string element_radio_interface,
           ADouble (real (unat element_ecio) * (- 0.5))]
        \<in> set (for_each array
                 (\<lambda>i (element_radio_interface, element_ecio).
                    [Print (TAB @ ''Network '%s': '%.1lf dBm'\<newline>'')
                       [AEnumString radio_interface_get_string element_radio_interface,
                        ADouble ((- 0.5) * real (unat element_ecio))]]))"
    by (rule in_for_each [OF x]) (simp add: xe)
  then show "case x of
      (element_radio_interface, element_ecio) \<Rightarrow>
        Print (TAB @ ''Network '%s': '%.1lf dBm'\<newline>'')
          [AEnumString radio_interface_get_string element_radio_interface,
           ADouble (real (unat element_ecio) * (- 0.5))]
        \<in> set (get_signal_strength_ready ctx held
                 (Output \<lparr>get_result = Success, groups = h\<lparr>ecio_list := Some array\<rparr>\<rparr>))"
    by (simp add: xe get_signal_strength_ready_def set_probe_Some)
qed

theorem energy_ratio_in_db_witness:
  "Print (TAB @ ''Network '%s': '%.1lf dBm'\<newline>'')
     [AEnumString radio_interface_get_string 4, ADouble (- 5)]
   \<in> set (get_signal_strength_ready example_context (0, 0)
            (Output \<lparr>get_result = Success,
                     groups = no_signal_strength_groups\<lparr>ecio_list := Some [(4, 10), (8, 0)]\<rparr>\<rparr>)) \<and>
   Print (TAB @ ''Network '%s': '%.1lf dBm'\<newline>'')
     [AEnumString radio_interface_get_string 8, ADouble 0]
   \<in> set (get_signal_strength_ready example_context (0, 0)
            (Output \<lparr>get_result = Success,
                     groups = no_signal_strength_groups\<lparr>ecio_list := Some [(4, 10), (8, 0)]\<rparr>\<rparr>))"
proof -
  note all = energy_ratio_in_db [where array = "[(4, 10), (8, 0)]" and ctx = example_context
      and held = "(0, 0)" and h = no_signal_strength_groups, THEN conjunct2, THEN conjunct2, THEN conjunct2,
      THEN conjunct1, rule_format]
  have "(4, 10) \<in> set [(4 :: int, 10 :: guint8), (8, 0)]"
    and "(8, 0) \<in> set [(4 :: int, 10 :: guint8), (8, 0)]"
    by simp_all
  from all [OF this(1)] all [OF this(2)] show ?thesis by simp
qed

subsection \<open>The report of the technology preference\<close>

text \<open>
  C7. When the persistent group is present, the call that prints the line "Persistent"
  has, after its format, the display path of the device and then the string of the
  preference mask: its second argument is the device identifier, where the line names a
  preference, and the preference string stands where the line names a duration. The call
  for the active group has the device identifier, the string of the preference mask and
  the string of the duration.
\<close>

theorem persistent_line_arguments:
  "get_technology_preference_ready ctx held
     (Output \<lparr>get_result = Success, groups = g\<lparr>persistent := Some preference\<rparr>\<rparr>) =
   [Probe ''active'',
    Print (''[%s] Successfully got technology preference\<newline>'' @
           TAB @ ''Active: '%s', duration: '%s'\<newline>'')
      [ADevicePath (device ctx),
       AMaskString radio_technology_preference_build_string_from_mask
         (fst (ignored (active g) held)),
       AEnumString preference_duration_get_string (snd (ignored (active g) held))],
    StringFree,
    Probe ''persistent'',
    Print (TAB @ ''Persistent: '%s', duration: '%s'\<newline>'')
      [ADevicePath (device ctx),
       AMaskString radio_technology_preference_build_string_from_mask preference],
    StringFree,
    OutputUnref] @ shutdown (Some ctx) True"
  by (simp add: get_technology_preference_ready_def probe_def split_def)

subsection \<open>A failing result\<close>

text \<open>
  C3. For each of the seven requests, when the output's result is a failure the ready
  callback prints the failure with its detail, releases the error and the output, and
  shuts down with a false status: no accessor of a field group is called.
\<close>

theorem failing_result_probes_nothing:
  "get_signal_strength_ready ctx held_strength
     (Output \<lparr>get_result = Failure detail, groups = g1\<rparr>) =
     [PrintErr ''error: couldn't get signal strength: %s\<newline>'' [AStr detail],
      ErrorFree, OutputUnref] @ shutdown (Some ctx) False \<and>
   get_signal_info_ready ctx (Output \<lparr>get_result = Failure detail, groups = g2\<rparr>) =
     [PrintErr ''error: couldn't get signal info: %s\<newline>'' [AStr detail],
      ErrorFree, OutputUnref] @ shutdown (Some ctx) False \<and>
   get_serving_system_ready ctx
     (Output \<lparr>get_result = Failure detail, groups = g3\<rparr>) =
     [PrintErr ''error: couldn't get serving system: %s\<newline>'' [AStr detail],
      ErrorFree, OutputUnref] @ shutdown (Some ctx) False \<and>
   get_technology_preference_ready ctx held_preference
     (Output \<lparr>get_result = Failure detail, groups = g4\<rparr>) =
     [PrintErr ''error: couldn't get technology preference: %s\<newline>'' [AStr detail],
      ErrorFree, OutputUnref] @ shutdown (Some ctx) False \<and>
   get_system_selection_preference_ready ctx
     (Output \<lparr>get_result = Failure detail, groups = g5\<rparr>) =
     [PrintErr ''error: couldn't get system_selection preference: %s\<newline>'' [AStr detail],
      ErrorFree, OutputUnref] @ shutdown (Some ctx) False \<and>
   network_scan_ready ctx (Output \<lparr>get_result = Failure detail, groups = g6\<rparr>) =
     [PrintErr ''error: couldn't scan networks: %s\<newline>'' [AStr detail],
      ErrorFree, OutputUnref] @ shutdown (Some ctx) False \<and>
   reset_ready ctx (Output \<lparr>get_result = Failure detail, groups = g7\<rparr>) =
     [PrintErr ''error: couldn't reset the NAS service: %s\<newline>'' [AStr detail],
      ErrorFree, OutputUnref] @ shutdown (Some ctx) False \<and>
   probes (get_signal_strength_ready ctx held_strength
     (Output \<lparr>get_result = Failure detail, groups = g1\<rparr>)) = [] \<and>
   probes (get_signal_info_ready ctx
     (Output \<lparr>get_result = Failure detail, groups = g2\<rparr>)) = [] \<and>
   probes (get_serving_system_ready ctx
     (Output \<lparr>get_result = Failure detail, groups = g3\<rparr>)) = [] \<and>
   probes (get_technology_preference_ready ctx held_preference
     (Output \<lparr>get_result = Failure detail, groups = g4\<rparr>)) = [] \<and>
   probes (get_system_selection_preference_ready ctx
     (Output \<lparr>get_result = Failure detail, groups = g5\<rparr>)) = [] \<and>
   probes (network_scan_ready ctx
     (Output \<lparr>get_result = Failure detail, groups = g6\<rparr>)) = [] \<and>
   probes (reset_ready ctx (Output \<lparr>get_result = Failure detail, groups = g7\<rparr>)) = []"
  by (simp add: get_signal_strength_ready_def get_signal_info_ready_def
      get_serving_system_ready_def get_technology_preference_ready_def
      get_system_selection_preference_ready_def network_scan_ready_def reset_ready_def)

subsection \<open>The accessors called on a successful output\<close>

lemma from_probe_Cons:
  "from_probe name (e # t) = (if e = Probe name then e # t else from_probe name t)"
  by (simp add: from_probe_def)

lemma from_probe_append:
  assumes "name \<notin> set (probes xs)"
  shows "from_probe name (xs @ ys) = from_probe name ys"
proof -
  from assms have "\<forall>e \<in> set xs. e \<noteq> Probe name"
    by (auto simp add: probes_def)
  then show ?thesis
    by (simp add: from_probe_def dropWhile_append)
qed

lemma from_probe_probe:
  "from_probe name (probe name (Some v) block @ rest) = Probe name # block v @ rest"
  by (simp add: probe_def from_probe_def)

lemma shutdown_not_Nil [simp]: "shutdown c b \<noteq> []"
  by (simp add: shutdown_def)

lemma last_shutdown [simp]: "last (shutdown c b) = OperationDone b"
  by (simp add: shutdown_def)

lemma signal_info_probes:
  "probes (get_signal_info_ready ctx (Output \<lparr>get_result = Success, groups = g\<rparr>)) =
     [''cdma_signal_strength'', ''hdr_signal_strength'', ''gsm_signal_strength'',
      ''wcdma_signal_strength'', ''lte_signal_strength'', ''tdma_signal_strength'']"
  by (simp add: get_signal_info_ready_def probes_probe split_def)

lemma signal_strength_probes:
  "probes (get_signal_strength_ready ctx held
     (Output \<lparr>get_result = Success, groups = g\<rparr>)) =
     [''signal_strength'', ''strength_list'', ''rssi_list'', ''ecio_list'', ''io'', ''sinr'',
      ''rsrq'', ''lte_snr'', ''lte_rsrp'']"
  by (simp add: get_signal_strength_ready_def probes_probe probes_for_each split_def)

lemma signal_info_last:
  "last (get_signal_info_ready ctx (Output \<lparr>get_result = Success, groups = g\<rparr>)) =
     OperationDone True"
  by (simp add: get_signal_info_ready_def)

lemma signal_strength_last:
  "last (get_signal_strength_ready ctx held
     (Output \<lparr>get_result = Success, groups = g\<rparr>)) = OperationDone True"
  by (simp add: get_signal_strength_ready_def)

subsection \<open>SINR levels\<close>

lemma sinr_level_invalid:
  "8 < level \<Longrightarrow>
     get_db_from_sinr_level level =
       ([Warning (''Invalid SINR level '%u'' @ QUOTE) [AUInt level]], - G_MAXDOUBLE)"
  by (simp add: get_db_from_sinr_level_def)

lemma sinr_level_valid: "level \<le> 8 \<Longrightarrow> fst (get_db_from_sinr_level level) = []"
  by (simp add: get_db_from_sinr_level_def)

lemma hdr_with_invalid_sinr_level:
  fixes ctx :: Context and g :: signal_info_groups and rssi :: gint8 and ecio :: guint16
    and io_value :: gint32
  assumes "8 < level"
  defines "t \<equiv> get_signal_info_ready ctx
     (Output \<lparr>get_result = Success,
              groups = g\<lparr>hdr_signal_strength := Some (rssi, ecio, level, io_value)\<rparr>\<rparr>)"
  shows "take 3 (from_probe ''hdr_signal_strength'' t) =
           [Probe ''hdr_signal_strength'',
            Warning (''Invalid SINR level '%u'' @ QUOTE) [AUInt level],
            Print (''HDR:\<newline>'' @
                   TAB @ ''RSSI: '%d dBm'\<newline>'' @
                   TAB @ ''ECIO: '%.1lf dBm'\<newline>'' @
                   TAB @ ''SINR (%u): '%.1lf dB'\<newline>'' @
                   TAB @ ''IO: '%d dBm'\<newline>'')
              [AInt (sint rssi), ADouble (real (unat ecio) * (- 0.5)), AUInt level,
               ADouble (- G_MAXDOUBLE), AInt (sint io_value)]]"
    and "probes (drop 3 (from_probe ''hdr_signal_strength'' t)) =
           [''gsm_signal_strength'', ''wcdma_signal_strength'', ''lte_signal_strength'',
            ''tdma_signal_strength'']"
  unfolding t_def
  by (simp_all add: get_signal_info_ready_def from_probe_Cons from_probe_append
      from_probe_probe probes_probe split_def sinr_level_invalid [OF assms(1)])

lemma sinr_with_invalid_level:
  fixes ctx :: Context and held :: "gint8 \<times> int" and h :: signal_strength_groups
  assumes "8 < level"
  defines "t \<equiv> get_signal_strength_ready ctx held
     (Output \<lparr>get_result = Success, groups = h\<lparr>sinr := Some level\<rparr>\<rparr>)"
  shows "take 3 (from_probe ''sinr'' t) =
           [Probe ''sinr'',
            Warning (''Invalid SINR level '%u'' @ QUOTE) [AUInt level],
            Print (''SINR:\<newline>'' @
                   TAB @ ''Network '%s': (%u) '%.1lf dB'\<newline>'')
              [AConstString radio_interface_get_string ''QMI_NAS_RADIO_INTERFACE_CDMA_1XEVDO'',
               AUInt level, ADouble (- G_MAXDOUBLE)]]"
    and "probes (drop 3 (from_probe ''sinr'' t)) = [''rsrq'', ''lte_snr'', ''lte_rsrp'']"
  unfolding t_def
  by (simp_all add: get_signal_strength_ready_def from_probe_Cons from_probe_append
      from_probe_probe probes_probe probes_for_each split_def sinr_level_invalid [OF assms(1)])

text \<open>What the two callbacks do after the print of the group that carries the level.\<close>

lemma after_hdr:
  fixes ctx :: Context and g :: signal_info_groups and rssi :: gint8 and ecio :: guint16
    and io_value :: gint32
  defines "t \<equiv> \<lambda>level. get_signal_info_ready ctx
     (Output \<lparr>get_result = Success,
              groups = g\<lparr>hdr_signal_strength := Some (rssi, ecio, level, io_value)\<rparr>\<rparr>)"
  defines "rest \<equiv>
     Probe ''gsm_signal_strength'' #
     (case gsm_signal_strength g of
        None \<Rightarrow> []
      | Some gsm_rssi \<Rightarrow>
          [Print (''GSM:\<newline>'' @
                  TAB @ ''RSSI: '%d dBm'\<newline>'')
             [AInt (sint gsm_rssi)]]) @
     Probe ''wcdma_signal_strength'' #
     (case wcdma_signal_strength g of
        None \<Rightarrow> []
      | Some (w_rssi, w_ecio) \<Rightarrow>
          [Print (''WCDMA:\<newline>'' @
                  TAB @ ''RSSI: '%d dBm'\<newline>'' @
                  TAB @ ''ECIO: '%.1lf dBm'\<newline>'')
             [AInt (sint w_rssi), ADouble (real (unat w_ecio) * (- 0.5))]]) @
     Probe ''lte_signal_strength'' #
     (case lte_signal_strength g of
        None \<Rightarrow> []
      | Some (l_rssi, l_rsrq, l_rsrp, l_snr) \<Rightarrow>
          [Print (''LTE:\<newline>'' @
                  TAB @ ''RSSI: '%d dBm'\<newline>'' @
                  TAB @ ''RSRQ: '%d dB'\<newline>'' @
                  TAB @ ''RSRP: '%d dBm'\<newline>'' @
                  TAB @ ''SNR: '%.1lf dBm'\<newline>'')
             [AInt (sint l_rssi), AInt (sint l_rsrq), AInt (sint l_rsrp),
              ADouble (0.1 * real_of_int (sint l_snr))]]) @
     Probe ''tdma_signal_strength'' #
     (case tdma_signal_strength g of
        None \<Rightarrow> []
      | Some rscp \<Rightarrow>
          [Print (''TDMA:\<newline>'' @
                  TAB @ ''RSCP: '%d dBm'\<newline>'')
             [AInt (sint rscp)]]) @
     OutputUnref # shutdown (Some ctx) True"
  shows "8 < level \<Longrightarrow> drop 3 (from_probe ''hdr_signal_strength'' (t level)) = rest"
    and "level \<le> 8 \<Longrightarrow> drop 2 (from_probe ''hdr_signal_strength'' (t level)) = rest"
  unfolding t_def rest_def
  by (simp_all add: get_signal_info_ready_def from_probe_Cons from_probe_append
      from_probe_probe probes_probe split_def sinr_level_invalid sinr_level_valid)
     (simp_all add: probe_def split_def split: option.splits)

lemma after_sinr:
  fixes ctx :: Context and held :: "gint8 \<times> int" and h :: signal_strength_groups
  defines "t \<equiv> \<lambda>level. get_signal_strength_ready ctx held
     (Output \<lparr>get_result = Success, groups = h\<lparr>sinr := Some level\<rparr>\<rparr>)"
  defines "rest \<equiv>
     Probe ''rsrq'' #
     (case rsrq h of
        None \<Rightarrow> []
      | Some (rsrq_value, rsrq_radio_interface) \<Rightarrow>
          [Print (''RSRQ:\<newline>'' @
                  TAB @ ''Network '%s': '%d dB'\<newline>'')
             [AEnumString radio_interface_get_string rsrq_radio_interface,
              AInt (sint rsrq_value)]]) @
     Probe ''lte_snr'' #
     (case lte_snr h of
        None \<Rightarrow> []
      | Some snr \<Rightarrow>
          [Print (''SNR:\<newline>'' @
                  TAB @ ''Network '%s': '%.1lf dB'\<newline>'')
             [AConstString radio_interface_get_string ''QMI_NAS_RADIO_INTERFACE_LTE'',
              ADouble (0.1 * real_of_int (sint snr))]]) @
     Probe ''lte_rsrp'' #
     (case lte_rsrp h of
        None \<Rightarrow> []
      | Some rsrp \<Rightarrow>
          [Print (''RSRP:\<newline>'' @
                  TAB @ ''Network '%s': '%d dBm'\<newline>'')
             [AConstString radio_interface_get_string ''QMI_NAS_RADIO_INTERFACE_LTE'',
              AInt (sint rsrp)]]) @
     OutputUnref # shutdown (Some ctx) True"
  shows "8 < level \<Longrightarrow> drop 3 (from_probe ''sinr'' (t level)) = rest"
    and "level \<le> 8 \<Longrightarrow> drop 2 (from_probe ''sinr'' (t level)) = rest"
  unfolding t_def rest_def
  by (simp_all add: get_signal_strength_ready_def from_probe_Cons from_probe_append
      from_probe_probe probes_probe probes_for_each split_def sinr_level_invalid
      sinr_level_valid)
     (simp_all add: probe_def split_def split: option.splits)

text \<open>
  C5. The levels 0 to 8 give -9, -6, -4.5, -3, -2, 1, 3, 6 and 9 dB, with no warning. A
  level above 8 gives a warning that names the level, and the value \<open>- G_MAXDOUBLE\<close>,
  which is none of the nine entries. In both reports that print a SINR level, the warning
  comes between the call of the group's accessor and the group's print; after that print
  every later group is probed and, when present, converted and printed, and the callback
  ends with a successful shutdown: the events after the print are those listed, and they
  are the events that follow the print of the same reply with a level from 0 to 8.
\<close>

theorem sinr_level_to_db:
  "map get_db_from_sinr_level [0, 1, 2, 3, 4, 5, 6, 7, 8] =
     map (Pair []) [- 9, - 6, - 4.5, - 3, - 2, 1, 3, 6, 9] \<and>
   (8 < level \<longrightarrow>
      get_db_from_sinr_level level =
        ([Warning (''Invalid SINR level '%u'' @ QUOTE) [AUInt level]], - G_MAXDOUBLE) \<and>
      - G_MAXDOUBLE \<notin> set [- 9, - 6, - 4.5, - 3, - 2, 1, 3, 6, 9] \<and>
      (let t = get_signal_info_ready ctx
                 (Output \<lparr>get_result = Success,
                          groups = g\<lparr>hdr_signal_strength :=
                            Some (rssi, ecio, level, io_value)\<rparr>\<rparr>)
       in take 3 (from_probe ''hdr_signal_strength'' t) =
            [Probe ''hdr_signal_strength'',
             Warning (''Invalid SINR level '%u'' @ QUOTE) [AUInt level],
             Print (''HDR:\<newline>'' @
                    TAB @ ''RSSI: '%d dBm'\<newline>'' @
                    TAB @ ''ECIO: '%.1lf dBm'\<newline>'' @
                    TAB @ ''SINR (%u): '%.1lf dB'\<newline>'' @
                    TAB @ ''IO: '%d dBm'\<newline>'')
               [AInt (sint rssi), ADouble (real (unat ecio) * (- 0.5)), AUInt level,
                ADouble (- G_MAXDOUBLE), AInt (sint io_value)]] \<and>
          drop 3 (from_probe ''hdr_signal_strength'' t) =
            Probe ''gsm_signal_strength'' #
            (case gsm_signal_strength g of
               None \<Rightarrow> []
             | Some gsm_rssi \<Rightarrow>
                 [Print (''GSM:\<newline>'' @
                         TAB @ ''RSSI: '%d dBm'\<newline>'')
                    [AInt (sint gsm_rssi)]]) @
            Probe ''wcdma_signal_strength'' #
            (case wcdma_signal_strength g of
               None \<Rightarrow> []
             | Some (w_rssi, w_ecio) \<Rightarrow>
                 [Print (''WCDMA:\<newline>'' @
                         TAB @ ''RSSI: '%d dBm'\<newline>'' @
                         TAB @ ''ECIO: '%.1lf dBm'\<newline>'')
                    [AInt (sint w_rssi), ADouble (real (unat w_ecio) * (- 0.5))]]) @
            Probe ''lte_signal_strength'' #
            (case lte_signal_strength g of
               None \<Rightarrow> []
             | Some (l_rssi, l_rsrq, l_rsrp, l_snr) \<Rightarrow>
                 [Print (''LTE:\<newline>'' @
                         TAB @ ''RSSI: '%d dBm'\<newline>'' @
                         TAB @ ''RSRQ: '%d dB'\<newline>'' @
                         TAB @ ''RSRP: '%d dBm'\<newline>'' @
                         TAB @ ''SNR: '%.1lf dBm'\<newline>'')
                    [AInt (sint l_rssi), AInt (sint l_rsrq), AInt (sint l_rsrp),
                     ADouble (0.1 * real_of_int (sint l_snr))]]) @
            Probe ''tdma_signal_strength'' #
            (case tdma_signal_strength g of
               None \<Rightarrow> []
             | Some rscp \<Rightarrow>
                 [Print (''TDMA:\<newline>'' @
                         TAB @ ''RSCP: '%d dBm'\<newline>'')
                    [AInt (sint rscp)]]) @
            OutputUnref # shutdown (Some ctx) True \<and>
          (\<forall>valid. valid \<le> 8 \<longrightarrow>
             drop 3 (from_probe ''hdr_signal_strength'' t) =
             drop 2 (from_probe ''hdr_signal_strength''
               (get_signal_info_ready ctx
                  (Output \<lparr>get_result = Success,
                           groups = g\<lparr>hdr_signal_strength :=
                             Some (rssi, ecio, valid, io_value)\<rparr>\<rparr>)))) \<and>
          probes (drop 3 (from_probe ''hdr_signal_strength'' t)) =
            [''gsm_signal_strength'', ''wcdma_signal_strength'', ''lte_signal_strength'',
             ''tdma_signal_strength''] \<and>
          last t = OperationDone True) \<and>
      (let t = get_signal_strength_ready ctx held
                 (Output \<lparr>get_result = Success, groups = h\<lparr>sinr := Some level\<rparr>\<rparr>)
       in take 3 (from_probe ''sinr'' t) =
            [Probe ''sinr'',
             Warning (''Invalid SINR level '%u'' @ QUOTE) [AUInt level],
             Print (''SINR:\<newline>'' @
                    TAB @ ''Network '%s': (%u) '%.1lf dB'\<newline>'')
               [AConstString radio_interface_get_string
                  ''QMI_NAS_RADIO_INTERFACE_CDMA_1XEVDO'',
                AUInt level, ADouble (- G_MAXDOUBLE)]] \<and>
          drop 3 (from_probe ''sinr'' t) =
            Probe ''rsrq'' #
            (case rsrq h of
               None \<Rightarrow> []
             | Some (rsrq_value, rsrq_radio_interface) \<Rightarrow>
                 [Print (''RSRQ:\<newline>'' @
                         TAB @ ''Network '%s': '%d dB'\<newline>'')
                    [AEnumString radio_interface_get_string rsrq_radio_interface,
                     AInt (sint rsrq_value)]]) @
            Probe ''lte_snr'' #
            (case lte_snr h of
               None \<Rightarrow> []
             | Some snr \<Rightarrow>
                 [Print (''SNR:\<newline>'' @
                         TAB @ ''Network '%s': '%.1lf dB'\<newline>'')
                    [AConstString radio_interface_get_string ''QMI_NAS_RADIO_INTERFACE_LTE'',
                     ADouble (0.1 * real_of_int (sint snr))]]) @
            Probe ''lte_rsrp'' #
            (case lte_rsrp h of
               None \<Rightarrow> []
             | Some rsrp \<Rightarrow>
                 [Print (''RSRP:\<newline>'' @
                         TAB @ ''Network '%s': '%d dBm'\<newline>'')
                    [AConstString radio_interface_get_string ''QMI_NAS_RADIO_INTERFACE_LTE'',
                     AInt (sint rsrp)]]) @
            OutputUnref # shutdown (Some ctx) True \<and>
          (\<forall>valid. valid \<le> 8 \<longrightarrow>
             drop 3 (from_probe ''sinr'' t) =
             drop 2 (from_probe ''sinr''
               (get_signal_strength_ready ctx held
                  (Output \<lparr>get_result = Success,
                           groups = h\<lparr>sinr := Some valid\<rparr>\<rparr>)))) \<and>
          probes (drop 3 (from_probe ''sinr'' t)) = [''rsrq'', ''lte_snr'', ''lte_rsrp''] \<and>
          last t = OperationDone True))"
proof -
  have table: "map get_db_from_sinr_level [0, 1, 2, 3, 4, 5, 6, 7, 8] =
     map (Pair []) [- 9, - 6, - 4.5, - 3, - 2, 1, 3, 6, 9]"
    by (simp add: get_db_from_sinr_level_def)
  have other: "- G_MAXDOUBLE \<notin> set [- 9, - 6, - 4.5, - 3, - 2, 1, 3, 6, 9]"
    by (simp add: G_MAXDOUBLE_def)
  show ?thesis
    unfolding Let_def
    by (intro conjI impI allI table other sinr_level_invalid
        hdr_with_invalid_sinr_level sinr_with_invalid_level
        after_hdr(1) after_sinr(1) signal_info_last signal_strength_last
        after_hdr(1) [THEN trans, OF _ after_hdr(2) [symmetric]]
        after_sinr(1) [THEN trans, OF _ after_sinr(2) [symmetric]])
qed

theorem sinr_level_to_db_witness:
  "get_db_from_sinr_level 9 =
     ([Warning (''Invalid SINR level '%u'' @ QUOTE) [AUInt 9]], - G_MAXDOUBLE) \<and>
   drop 3 (from_probe ''sinr''
     (get_signal_strength_ready example_context (0, 0)
        (Output \<lparr>get_result = Success,
                 groups = no_signal_strength_groups
                   \<lparr>sinr := Some 9, rsrq := Some (0xF6, 8), lte_snr := Some 25\<rparr>\<rparr>))) =
     [Probe ''rsrq'',
      Print (''RSRQ:\<newline>'' @
             TAB @ ''Network '%s': '%d dB'\<newline>'')
        [AEnumString radio_interface_get_string 8, AInt (- 10)],
      Probe ''lte_snr'',
      Print (''SNR:\<newline>'' @
             TAB @ ''Network '%s': '%.1lf dB'\<newline>'')
        [AConstString radio_interface_get_string ''QMI_NAS_RADIO_INTERFACE_LTE'',
         ADouble 2.5],
      Probe ''lte_rsrp'',
      OutputUnref] @ shutdown (Some example_context) True \<and>
   drop 3 (from_probe ''sinr''
     (get_signal_strength_ready example_context (0, 0)
        (Output \<lparr>get_result = Success,
                 groups = no_signal_strength_groups
                   \<lparr>sinr := Some 9, rsrq := Some (0xF6, 8), lte_snr := Some 25\<rparr>\<rparr>))) =
   drop 2 (from_probe ''sinr''
     (get_signal_strength_ready example_context (0, 0)
        (Output \<lparr>get_result = Success,
                 groups = no_signal_strength_groups
                   \<lparr>sinr := Some 3, rsrq := Some (0xF6, 8), lte_snr := Some 25\<rparr>\<rparr>)))"
proof -
  have invalid: "8 < (9 :: nat)" and valid: "(3 :: nat) \<le> 8" by simp_all
  let ?h = "no_signal_strength_groups\<lparr>rsrq := Some (0xF6, 8), lte_snr := Some 25\<rparr>"
  note w = sinr_level_to_db [where level = 9 and ctx = example_context and held = "(0, 0)"
      and h = ?h, THEN conjunct2, rule_format, OF invalid]
  note s = w [THEN conjunct2, THEN conjunct2, THEN conjunct2, unfolded Let_def]
  note tail = s [THEN conjunct2, THEN conjunct1]
  note same = s [THEN conjunct2, THEN conjunct2, THEN conjunct1, rule_format, OF valid]
  have h: "?h\<lparr>sinr := Some 9\<rparr> =
      no_signal_strength_groups
        \<lparr>sinr := Some 9, rsrq := Some (0xF6, 8), lte_snr := Some 25\<rparr>"
    "?h\<lparr>sinr := Some 3\<rparr> =
      no_signal_strength_groups
        \<lparr>sinr := Some 3, rsrq := Some (0xF6, 8), lte_snr := Some 25\<rparr>"
    "rsrq ?h = Some (0xF6, 8)" "lte_snr ?h = Some 25" "lte_rsrp ?h = None"
    by (simp_all add: no_signal_strength_groups_def)
  from w [THEN conjunct1] tail same show ?thesis
    by (simp add: h)
qed

subsection \<open>Absent field groups\<close>

text \<open>
  C6 does not hold of the code: three accessors are called with their result dropped. On
  a successful reply of the serving system without its first group, the callback reads
  through the pointer \<open>radio_interfaces\<close>, which was never written: none of the other
  groups is extracted, whichever are present, and the callback does not reach its
  shutdown. On a successful reply of the signal strength, or of the technology
  preference, without its first group, the line of that group is printed all the same,
  from what the variables hold before the call and not from the reply.
\<close>

theorem absent_first_group_not_optional:
  "get_serving_system_ready ctx
     (Output \<lparr>get_result = Success, groups = g\<lparr>serving_system := None\<rparr>\<rparr>) =
     [Print ''[%s] Successfully got serving system:\<newline>'' [ADevicePath (device ctx)],
      Probe ''serving_system'', Fault] \<and>
   take 2 (get_signal_strength_ready ctx (strength_held, radio_interface_held)
     (Output \<lparr>get_result = Success, groups = h\<lparr>signal_strength := None\<rparr>\<rparr>)) =
     [Probe ''signal_strength'',
      Print (''[%s] Successfully got signal strength\<newline>'' @
             ''Current:\<newline>'' @
             TAB @ ''Network '%s': '%d dBm'\<newline>'')
        [ADevicePath (device ctx), AEnumString radio_interface_get_string radio_interface_held,
         AInt (sint strength_held)]] \<and>
   take 3 (get_technology_preference_ready ctx (preference_held, duration_held)
     (Output \<lparr>get_result = Success, groups = p\<lparr>active := None\<rparr>\<rparr>)) =
     [Probe ''active'',
      Print (''[%s] Successfully got technology preference\<newline>'' @
             TAB @ ''Active: '%s', duration: '%s'\<newline>'')
        [ADevicePath (device ctx),
         AMaskString radio_technology_preference_build_string_from_mask preference_held,
         AEnumString preference_duration_get_string duration_held],
      StringFree]"
  by (simp add: get_serving_system_ready_def get_signal_strength_ready_def
      get_technology_preference_ready_def ignored_def)

subsection \<open>Teardown\<close>

lemma teardown_Nil [simp]: "teardown [] = []"
  by (simp add: teardown_def)

lemma teardown_Cons [simp]:
  "teardown (e # t) = (if teardown_event e then e # teardown t else teardown t)"
  by (simp add: teardown_def)

lemma teardown_append [simp]: "teardown (t @ u) = teardown t @ teardown u"
  by (simp add: teardown_def)

lemma teardown_for_each:
  "(\<And>i x. teardown (body i x) = []) \<Longrightarrow> teardown (for_each array body) = []"
  by (simp add: teardown_def for_each_def split_def filter_concat)

lemma teardown_probe:
  "(\<And>v. teardown (block v) = []) \<Longrightarrow> teardown (probe name field block) = []"
  by (simp add: probe_def split: option.splits)

lemma teardown_shutdown [simp]: "teardown (shutdown c b) = shutdown c b"
  by (simp add: shutdown_def context_free_def split: option.splits)

lemma teardown_sinr [simp]: "teardown (fst (get_db_from_sinr_level level)) = []"
  by (simp add: get_db_from_sinr_level_def)

lemma signal_strength_teardown:
  "teardown (get_signal_strength_ready ctx held res) = shutdown (Some ctx) (succeeded res)"
  "last (get_signal_strength_ready ctx held res) = OperationDone (succeeded res)"
  by (simp_all add: get_signal_strength_ready_def succeeded_def teardown_probe
      teardown_for_each split_def split: reply.splits result.splits)

lemma signal_info_teardown:
  "teardown (get_signal_info_ready ctx res) = shutdown (Some ctx) (succeeded res)"
  "last (get_signal_info_ready ctx res) = OperationDone (succeeded res)"
  by (simp_all add: get_signal_info_ready_def succeeded_def teardown_probe split_def
      split: reply.splits result.splits)

lemma serving_system_teardown:
  "teardown (get_serving_system_ready ctx res) =
     (if serving_system_faults res then [] else shutdown (Some ctx) (succeeded res))"
  "last (get_serving_system_ready ctx res) =
     (if serving_system_faults res then Fault else OperationDone (succeeded res))"
  by (simp_all add: get_serving_system_ready_def succeeded_def serving_system_faults_def
      teardown_probe teardown_for_each split_def Let_def
      split: reply.splits result.splits option.splits)

lemma technology_preference_teardown:
  "teardown (get_technology_preference_ready ctx held res) =
     shutdown (Some ctx) (succeeded res)"
  "last (get_technology_preference_ready ctx held res) = OperationDone (succeeded res)"
  by (simp_all add: get_technology_preference_ready_def succeeded_def teardown_probe
      split_def split: reply.splits result.splits)

lemma system_selection_preference_teardown:
  "teardown (get_system_selection_preference_ready ctx res) =
     shutdown (Some ctx) (succeeded res)"
  "last (get_system_selection_preference_ready ctx res) = OperationDone (succeeded res)"
  by (simp_all add: get_system_selection_preference_ready_def succeeded_def teardown_probe
      split_def split: reply.splits result.splits)

lemma network_scan_teardown:
  "teardown (network_scan_ready ctx res) = shutdown (Some ctx) (succeeded res)"
  "last (network_scan_ready ctx res) = OperationDone (succeeded res)"
  by (simp_all add: network_scan_ready_def succeeded_def teardown_probe teardown_for_each
      split_def split: reply.splits result.splits)

lemma reset_teardown:
  "teardown (reset_ready ctx res) = shutdown (Some ctx) (succeeded res)"
  "last (reset_ready ctx res) = OperationDone (succeeded res)"
  by (simp_all add: reset_ready_def succeeded_def split: reply.splits result.splits)

lemma noop_teardown:
  "teardown (noop_cb ctx) = shutdown (Some ctx) True"
  "last (noop_cb ctx) = OperationDone True"
  by (simp_all add: noop_cb_def)

lemmas ready_teardown =
  signal_strength_teardown signal_info_teardown serving_system_teardown
  technology_preference_teardown system_selection_preference_teardown
  network_scan_teardown reset_teardown noop_teardown

lemma input_create_teardown [simp]:
  "teardown (snd (get_signal_strength_input_create e)) = []"
  by (simp add: get_signal_strength_input_create_def split: option.splits)

lemma flags_set_0:
  "flags_set opts = 0 \<longleftrightarrow>
     \<not> get_signal_strength_flag opts \<and> \<not> get_signal_info_flag opts \<and>
     \<not> get_serving_system_flag opts \<and> \<not> get_technology_preference_flag opts \<and>
     \<not> get_system_selection_preference_flag opts \<and> \<not> network_scan_flag opts \<and>
     \<not> reset_flag opts \<and> \<not> noop_flag opts"
  by (simp add: flags_set_def flag_list_def filter_empty_conv)

lemma flags_set_1_serving:
  "flags_set opts = 1 \<Longrightarrow> get_serving_system_flag opts \<Longrightarrow>
     \<not> get_signal_strength_flag opts \<and> \<not> get_signal_info_flag opts"
  by (auto simp add: flags_set_def flag_list_def split: if_splits)

lemma ready_not_Nil:
  "dispatch ctx w cb \<noteq> []"
  by (cases cb)
     (simp_all add: dispatch_def get_signal_strength_ready_def get_signal_info_ready_def
      get_serving_system_ready_def get_technology_preference_ready_def
      get_system_selection_preference_ready_def network_scan_ready_def reset_ready_def
      noop_cb_def split: reply.splits result.splits)

lemma last_before_dispatch [simp]:
  "last (t @ dispatch ctx w cb) = last (dispatch ctx w cb)"
  by (simp add: ready_not_Nil)

lemma invocation_teardown:
  "teardown (invocation opts w device_arg client_arg cancellable_arg) =
     (if flags_set opts = 0 \<or>
         (\<not> get_signal_strength_flag opts \<and> \<not> get_signal_info_flag opts \<and>
          get_serving_system_flag opts \<and> serving_system_faults (serving_system_res w))
      then []
      else shutdown (Some (context_of w device_arg client_arg cancellable_arg))
             (status opts w))"
  by (simp add: flags_set_0 invocation_def qmicli_nas_run_def dispatch_def context_of_def
      status_def ready_teardown split_def Let_def split: option.splits)

lemma invocation_last:
  "last (invocation opts w device_arg client_arg cancellable_arg) =
     (if flags_set opts = 0 then WarnIfReached
      else if \<not> get_signal_strength_flag opts \<and> \<not> get_signal_info_flag opts \<and>
              get_serving_system_flag opts \<and> serving_system_faults (serving_system_res w)
        then Fault
      else OperationDone (status opts w))"
proof -
  have each:
    "last (dispatch ctx w SignalStrengthReady) =
       OperationDone (succeeded (signal_strength_res w))"
    "last (dispatch ctx w SignalInfoReady) = OperationDone (succeeded (signal_info_res w))"
    "last (dispatch ctx w ServingSystemReady) =
       (if serving_system_faults (serving_system_res w) then Fault
        else OperationDone (succeeded (serving_system_res w)))"
    "last (dispatch ctx w TechnologyPreferenceReady) =
       OperationDone (succeeded (technology_preference_res w))"
    "last (dispatch ctx w SystemSelectionPreferenceReady) =
       OperationDone (succeeded (system_selection_preference_res w))"
    "last (dispatch ctx w NetworkScanReady) = OperationDone (succeeded (network_scan_res w))"
    "last (dispatch ctx w ResetReady) = OperationDone (succeeded (reset_res w))"
    "last (dispatch ctx w NoopCb) = OperationDone True" for ctx
    by (simp_all add: dispatch_def ready_teardown)
  show ?thesis
    by (simp add: flags_set_0 invocation_def qmicli_nas_run_def status_def each split_def
        Let_def del: append_assoc flip: append_assoc)
qed

lemma done_teardown: "[b. OperationDone b \<leftarrow> teardown t] = [b. OperationDone b \<leftarrow> t]"
  by (induction t) (auto split: event.splits)

lemma free_teardown:
  "filter (\<lambda>e. e = SliceFree) (teardown t) = filter (\<lambda>e. e = SliceFree) t"
  by (induction t) auto

text \<open>
  Where the code keeps the invariant: with exactly one flag set, a cancellable given (or
  a slice whose field happens to be NULL), and a reply on which the serving system's
  callback does not read through its pointer, the teardown events of the invocation are
  those of one shutdown: the release of the cancellable given, of the device and of the
  client, the release of the context, and the signal to the driver with the status of
  the action, which is the last event and is given once.
\<close>

lemma teardown_once_otherwise:
  assumes one: "flags_set opts = 1"
    and token: "cancellable_arg = None \<longrightarrow> slice_cancellable w = None"
    and reply: "get_serving_system_flag opts \<longrightarrow>
                  \<not> serving_system_faults (serving_system_res w)"
  shows "teardown (invocation opts w device_arg client_arg cancellable_arg) =
           (case cancellable_arg of None \<Rightarrow> [] | Some g \<Rightarrow> [ObjectUnref g]) @
           [ObjectUnref device_arg, ObjectUnref client_arg, SliceFree,
            OperationDone (status opts w)]"
    and "[b. OperationDone b \<leftarrow> invocation opts w device_arg client_arg cancellable_arg] =
           [status opts w]"
    and "length (filter (\<lambda>e. e = SliceFree)
           (invocation opts w device_arg client_arg cancellable_arg)) = 1"
    and "last (invocation opts w device_arg client_arg cancellable_arg) =
           OperationDone (status opts w)"
proof -
  let ?t = "invocation opts w device_arg client_arg cancellable_arg"
  let ?s = "(case cancellable_arg of None \<Rightarrow> [] | Some g \<Rightarrow> [ObjectUnref g]) @
           [ObjectUnref device_arg, ObjectUnref client_arg, SliceFree,
            OperationDone (status opts w)]"
  have no_fault:
    "\<not> (\<not> get_signal_strength_flag opts \<and> \<not> get_signal_info_flag opts \<and>
        get_serving_system_flag opts \<and> serving_system_faults (serving_system_res w))"
    using reply by blast
  show t: "teardown ?t = ?s"
    using one token no_fault
    by (cases cancellable_arg)
       (simp_all add: invocation_teardown shutdown_def context_free_def context_of_def)
  have "[b. OperationDone b \<leftarrow> ?t] = [b. OperationDone b \<leftarrow> teardown ?t]"
    by (simp only: done_teardown)
  also have "\<dots> = [status opts w]"
    unfolding t by (cases cancellable_arg) simp_all
  finally show "[b. OperationDone b \<leftarrow> ?t] = [status opts w]" .
  have "filter (\<lambda>e. e = SliceFree) ?t = filter (\<lambda>e. e = SliceFree) (teardown ?t)"
    by (simp only: free_teardown)
  also have "\<dots> = [SliceFree]"
    unfolding t by (cases cancellable_arg) simp_all
  finally show "length (filter (\<lambda>e. e = SliceFree) ?t) = 1" by simp
  show "last ?t = OperationDone (status opts w)"
    using one no_fault by (simp add: invocation_last)
qed

text \<open>
  C1 does not hold of the code, on two inputs. With no cancellable, \<open>qmicli_nas_run\<close>
  leaves the field \<open>cancellable\<close> of the new slice as it finds it, and \<open>context_free\<close>
  releases what the field holds: an object that was never referenced. And on a
  successful reply of the serving system without its first group the callback reads
  through a pointer that was never written, before its shutdown: the context, the device,
  the client and the cancellable are not released, and the driver is not told that the
  operation is done.
\<close>

theorem teardown_not_exactly_once:
  "invocation (no_action\<lparr>noop_flag := True\<rparr>) (w\<lparr>slice_cancellable := Some stray\<rparr>)
     device_arg client_arg None =
     [SliceNew, ObjectRef device_arg, ObjectRef client_arg, IdleAdd,
      ObjectUnref stray, ObjectUnref device_arg, ObjectUnref client_arg, SliceFree,
      OperationDone True] \<and>
   invocation (no_action\<lparr>get_serving_system_flag := True\<rparr>)
     (w\<lparr>serving_system_res :=
          Output \<lparr>get_result = Success, groups = g\<lparr>serving_system := None\<rparr>\<rparr>\<rparr>)
     device_arg client_arg (Some token) =
     [SliceNew, ObjectRef device_arg, ObjectRef client_arg, ObjectRef token,
      Debug ''Asynchronously getting serving system...'',
      Submit GetServingSystem None 10 (Some token),
      Print ''[%s] Successfully got serving system:\<newline>'' [ADevicePath (Some device_arg)],
      Probe ''serving_system'', Fault]"
  by (simp add: invocation_def qmicli_nas_run_def no_action_def dispatch_def noop_cb_def
      shutdown_def context_free_def get_serving_system_ready_def Let_def)

subsection \<open>Running with no action\<close>

text \<open>
  C10. With all eight flags false, \<open>qmicli_nas_run\<close> allocates the context and takes a
  reference to the device and to the client (and to the cancellable, if any), warns that
  the end of the function was reached, and leaves no callback pending: there is no
  request and no idle source, and the invocation has no teardown event: the context is
  not released and the driver is not told that the operation is done.
\<close>

theorem run_without_action:
  "qmicli_nas_run no_action mask_error slice_content device_arg client_arg cancellable_arg =
     (\<lparr>device = Some device_arg, client = Some client_arg,
       cancellable = (case cancellable_arg of None \<Rightarrow> slice_content | Some g \<Rightarrow> Some g)\<rparr>,
      None,
      SliceNew # ObjectRef device_arg # ObjectRef client_arg #
      (case cancellable_arg of None \<Rightarrow> [] | Some g \<Rightarrow> [ObjectRef g]) @ [WarnIfReached]) \<and>
   invocation no_action w device_arg client_arg cancellable_arg =
     SliceNew # ObjectRef device_arg # ObjectRef client_arg #
     (case cancellable_arg of None \<Rightarrow> [] | Some g \<Rightarrow> [ObjectRef g]) @ [WarnIfReached] \<and>
   teardown (invocation no_action w device_arg client_arg cancellable_arg) = []"
  by (simp add: qmicli_nas_run_def invocation_def no_action_def Let_def
      split: option.splits)

subsection \<open>A request that cannot be built\<close>

text \<open>
  C2 does not hold of the code: when the request mask is refused,
  \<open>get_signal_strength_input_create\<close> reports the error and returns NULL, and
  \<open>qmicli_nas_run\<close> does not test the input: it submits the request with a NULL input,
  releases the NULL input and returns to the main loop with the callback pending. There
  is no teardown before the reply.
\<close>

theorem request_build_failure_still_submits:
  "qmicli_nas_run (opts\<lparr>get_signal_strength_flag := True\<rparr>) (Some message) slice_content
     device_arg client_arg cancellable_arg =
     (\<lparr>device = Some device_arg, client = Some client_arg,
       cancellable = (case cancellable_arg of None \<Rightarrow> slice_content | Some g \<Rightarrow> Some g)\<rparr>,
      Some SignalStrengthReady,
      SliceNew # ObjectRef device_arg # ObjectRef client_arg #
      (case cancellable_arg of None \<Rightarrow> [] | Some g \<Rightarrow> [ObjectRef g]) @
      [InputNew,
       PrintErr ''error: couldn't create input data bundle: '%s'\<newline>'' [AStr message],
       ErrorFree,
       InputUnref (Some (Input {})),
       Debug ''Asynchronously getting signal strength...'',
       Submit GetSignalStrength None 10
         (case cancellable_arg of None \<Rightarrow> slice_content | Some g \<Rightarrow> Some g),
       InputUnref None])"
  by (simp add: qmicli_nas_run_def get_signal_strength_input_create_def Let_def)

end
